theory Spec2Isabelle
  imports Main "HOL-Library.Sublist"
begin

section \<open>ytdown: the orchestration function of \<^verbatim>\<open>ytdown.py\<close>\<close>

text \<open>
  \<^verbatim>\<open>download_youtube_media\<close> builds one option dictionary per requested format, hands
  it to the external library \<^verbatim>\<open>yt_dlp\<close>, looks for the output file and collects a
  results dictionary. The library and the file system are opaque: they are a record of
  functions over an abstract world \<open>'w\<close>, and every call the program makes to the
  library is written to a call log, so that what was handed to the library, and how
  often, can be stated.

  Scope of the model. An exception is a value \<open>Inl msg\<close>, where \<open>msg\<close> is \<^verbatim>\<open>str(e)\<close>;
  only exceptions of class \<^verbatim>\<open>Exception\<close> are modelled (what \<^verbatim>\<open>except Exception\<close>
  catches). Leaving the \<^verbatim>\<open>with\<close> block is taken not to raise. Text written with
  \<^verbatim>\<open>print\<close> is not modelled. \<^verbatim>\<open>os.path.exists\<close> and \<^verbatim>\<open>os.path.getsize\<close> read the
  same world with no step between them, so the size is read as a total function.
  \<^verbatim>\<open>os.path.join\<close> is the POSIX one.
\<close>

subsection \<open>Dictionaries of the source as records\<close>

text \<open>A post-processor dictionary; a key that is absent is \<open>None\<close>.\<close>

record postprocessor =
  key :: string
  preferredcodec :: "string option"
  preferredquality :: "string option"

text \<open>An entry of \<^verbatim>\<open>format_configs\<close> (lines 58-103).\<close>

record config =
  cfg_format :: string
  cfg_postprocessors :: "postprocessor list"
  cfg_ext :: string

text \<open>\<^verbatim>\<open>ydl_opts\<close> (lines 118-152); the three keys set conditionally are options.\<close>

record ydl_opts =
  opt_format :: string
  outtmpl :: string
  opt_quiet :: bool
  no_warnings :: bool
  no_color :: bool
  ignoreerrors :: bool
  writethumbnail :: "bool option"
  keepvideo :: "bool option"
  postprocessors :: "postprocessor list option"

text \<open>
  \<^verbatim>\<open>round(os.path.getsize(p) / (1024 * 1024), 2)\<close> is a floating-point number; it is
  kept symbolically, as the byte count it is computed from.
\<close>

datatype megabytes = Round2_MiB nat

text \<open>A success record (lines 178-185).\<close>

record download_entry =
  format :: string
  filename :: string
  size_mb :: megabytes
  with_thumbnail :: bool
  with_metadata :: bool
  success :: bool

text \<open>\<^verbatim>\<open>results\<close> (lines 105-110).\<close>

record results =
  url :: string
  formats_requested :: "string list"
  downloads :: "download_entry list"
  errors :: "string list"

text \<open>The arguments of \<^verbatim>\<open>download_youtube_media\<close> (lines 5-14).\<close>

record arguments =
  arg_url :: string
  arg_formats :: "string list option"
  include_thumbnail :: bool
  include_metadata :: bool
  output_dir :: string
  quality :: string
  keep_original :: bool
  quiet :: bool

subsection \<open>The external library and the file system\<close>

text \<open>
  Each operation reads and changes the world; \<open>Inl msg\<close> is a raised exception.
  \<open>'i\<close> is the info dictionary \<^verbatim>\<open>extract_info\<close> returns.
\<close>

record ('i, 'w) externals =
  makedirs :: "string \<Rightarrow> 'w \<Rightarrow> (string + unit) \<times> 'w"
  YoutubeDL :: "ydl_opts \<Rightarrow> 'w \<Rightarrow> (string + unit) \<times> 'w"
  extract_info :: "ydl_opts \<Rightarrow> string \<Rightarrow> 'w \<Rightarrow> (string + 'i) \<times> 'w"
  download :: "ydl_opts \<Rightarrow> string list \<Rightarrow> 'w \<Rightarrow> (string + unit) \<times> 'w"
  prepare_filename :: "ydl_opts \<Rightarrow> 'i \<Rightarrow> 'w \<Rightarrow> (string + string) \<times> 'w"
  path_exists :: "string \<Rightarrow> 'w \<Rightarrow> bool"
  path_getsize :: "string \<Rightarrow> 'w \<Rightarrow> nat"

text \<open>
  The calls made to the library, in order: the construction \<^verbatim>\<open>YoutubeDL(ydl_opts)\<close>,
  \<^verbatim>\<open>extract_info(url, download=False)\<close>, \<^verbatim>\<open>download([url])\<close> and
  \<^verbatim>\<open>prepare_filename(info)\<close>, whose argument is the value \<^verbatim>\<open>extract_info\<close> returned.
\<close>

datatype ydl_call =
  New_YoutubeDL ydl_opts
| Extract_info string
| Download "string list"
| Prepare_filename

text \<open>The state of a run: the results dictionary, the world and the call log.\<close>

record 'w state =
  st_results :: results
  world :: 'w
  calls :: "ydl_call list"

text \<open>How the \<^verbatim>\<open>try\<close> block was left: by an exception, or through one branch of line 171.\<close>

datatype try_exit = Raised string | File_found | File_missing

subsection \<open>String helpers\<close>

text \<open>\<^verbatim>\<open>os.path.join(a, b)\<close> for two components (posixpath).\<close>

definition os_path_join :: "string \<Rightarrow> string \<Rightarrow> string" where
  "os_path_join a b =
     (if b \<noteq> [] \<and> hd b = CHR ''/'' then b
      else if a = [] \<or> last a = CHR ''/'' then a @ b
      else a @ ''/'' @ b)"

text \<open>\<^verbatim>\<open>s.rsplit('.', 1)[0]\<close>: \<open>s\<close> up to its last dot, all of \<open>s\<close> when it has none.\<close>

definition rsplit_dot_head :: "string \<Rightarrow> string" where
  "rsplit_dot_head s =
     (if CHR ''.'' \<in> set s
      then rev (tl (dropWhile (\<lambda>c. c \<noteq> CHR ''.'') (rev s)))
      else s)"

text \<open>Line 169.\<close>

definition final_filename :: "string \<Rightarrow> string \<Rightarrow> string" where
  "final_filename base_filename fmt = rsplit_dot_head base_filename @ ''.'' @ fmt"

subsection \<open>The format table and the option dictionary\<close>

definition extract_audio :: "string \<Rightarrow> postprocessor" where
  "extract_audio codec =
     \<lparr>key = ''FFmpegExtractAudio'', preferredcodec = Some codec, preferredquality = None\<rparr>"

definition embed_thumbnail :: postprocessor where
  "embed_thumbnail = \<lparr>key = ''EmbedThumbnail'', preferredcodec = None, preferredquality = None\<rparr>"

definition ffmpeg_metadata :: postprocessor where
  "ffmpeg_metadata = \<lparr>key = ''FFmpegMetadata'', preferredcodec = None, preferredquality = None\<rparr>"

text \<open>Lines 58-103: the dictionary literal, in its order.\<close>

definition format_configs :: "string \<Rightarrow> config option" where
  "format_configs = map_of
     [(''mp3'', \<lparr>cfg_format = ''bestaudio/best'', cfg_postprocessors = [], cfg_ext = ''mp3''\<rparr>),
      (''mp4'', \<lparr>cfg_format = ''best[ext=mp4]/best'', cfg_postprocessors = [], cfg_ext = ''mp4''\<rparr>),
      (''webm'', \<lparr>cfg_format = ''best[ext=webm]/best'', cfg_postprocessors = [], cfg_ext = ''webm''\<rparr>),
      (''m4a'', \<lparr>cfg_format = ''bestaudio[ext=m4a]/bestaudio'', cfg_postprocessors = [],
         cfg_ext = ''m4a''\<rparr>),
      (''flac'', \<lparr>cfg_format = ''bestaudio/best'', cfg_postprocessors = [extract_audio ''flac''],
         cfg_ext = ''flac''\<rparr>),
      (''wav'', \<lparr>cfg_format = ''bestaudio/best'', cfg_postprocessors = [extract_audio ''wav''],
         cfg_ext = ''wav''\<rparr>),
      (''ogg'', \<lparr>cfg_format = ''bestaudio/best'', cfg_postprocessors = [extract_audio ''vorbis''],
         cfg_ext = ''ogg''\<rparr>)]"

text \<open>
  Lines 118-152: the option dictionary for one format. The pair is \<^verbatim>\<open>ydl_opts\<close> and
  the local list \<^verbatim>\<open>postprocessors\<close>, updated in the order of the source.
\<close>

definition build_ydl_opts :: "arguments \<Rightarrow> string \<Rightarrow> config \<Rightarrow> ydl_opts" where
  "build_ydl_opts a fmt cfg =
     (let s0 = (\<lparr>opt_format = cfg_format cfg,
                 outtmpl = os_path_join (output_dir a) (''%(title)s_'' @ fmt @ ''.%(ext)s''),
                 opt_quiet = quiet a, no_warnings = quiet a, no_color = True,
                 ignoreerrors = False, writethumbnail = None, keepvideo = None,
                 postprocessors = None\<rparr>,
               cfg_postprocessors cfg);
          s1 = (if fmt \<in> set [''mp3'', ''flac'', ''wav'', ''ogg''] then
                  (let t1 = (if fmt = ''mp3''
                             then (fst s0, snd s0 @
                                     [\<lparr>key = ''FFmpegExtractAudio'', preferredcodec = Some fmt,
                                       preferredquality = Some (quality a)\<rparr>])
                             else s0);
                       t2 = (if include_thumbnail a \<and> fmt \<in> set [''mp3'', ''flac'', ''m4a'']
                             then ((fst t1)\<lparr>writethumbnail := Some True\<rparr>,
                                   snd t1 @ [embed_thumbnail])
                             else t1);
                       t3 = (if include_metadata a
                             then (fst t2, snd t2 @ [ffmpeg_metadata])
                             else t2)
                   in t3)
                else s0);
          s2 = (if keep_original a then ((fst s1)\<lparr>keepvideo := Some True\<rparr>, snd s1) else s1)
      in if snd s2 \<noteq> [] then (fst s2)\<lparr>postprocessors := Some (snd s2)\<rparr> else fst s2)"

subsection \<open>The loop\<close>

text \<open>One call to the library: the world changes and the call is logged, raised or not.\<close>

definition call :: "ydl_call \<Rightarrow> ('w \<Rightarrow> (string + 'a) \<times> 'w) \<Rightarrow> 'w state
    \<Rightarrow> (string + 'a) \<times> 'w state" where
  "call c f st =
     (case f (world st) of (r, w) \<Rightarrow> (r, st\<lparr>world := w, calls := calls st @ [c]\<rparr>))"

definition append_download :: "download_entry \<Rightarrow> 'w state \<Rightarrow> 'w state" where
  "append_download d st =
     st\<lparr>st_results := (st_results st)\<lparr>downloads := downloads (st_results st) @ [d]\<rparr>\<rparr>"

definition append_error :: "string \<Rightarrow> 'w state \<Rightarrow> 'w state" where
  "append_error e st =
     st\<lparr>st_results := (st_results st)\<lparr>errors := errors (st_results st) @ [e]\<rparr>\<rparr>"

text \<open>Lines 155-189: the body of the \<^verbatim>\<open>try\<close> statement.\<close>

definition try_block :: "('i, 'w) externals \<Rightarrow> arguments \<Rightarrow> string \<Rightarrow> ydl_opts \<Rightarrow> 'w state
    \<Rightarrow> try_exit \<times> 'w state" where
  "try_block E a fmt opts st =
     (case call (New_YoutubeDL opts) (YoutubeDL E opts) st of
        (Inl e, st1) \<Rightarrow> (Raised e, st1)
      | (Inr _, st1) \<Rightarrow>
     (case call (Extract_info (arg_url a)) (extract_info E opts (arg_url a)) st1 of
        (Inl e, st2) \<Rightarrow> (Raised e, st2)
      | (Inr info, st2) \<Rightarrow>
     (case call (Download [arg_url a]) (download E opts [arg_url a]) st2 of
        (Inl e, st3) \<Rightarrow> (Raised e, st3)
      | (Inr _, st3) \<Rightarrow>
     (case call Prepare_filename (prepare_filename E opts info) st3 of
        (Inl e, st4) \<Rightarrow> (Raised e, st4)
      | (Inr base_filename, st4) \<Rightarrow>
     (let final = final_filename base_filename fmt in
      if path_exists E final (world st4)
      then (File_found,
            append_download
              \<lparr>format = fmt, filename = final,
                size_mb = Round2_MiB (path_getsize E final (world st4)),
                with_thumbnail =
                  (if fmt \<in> set [''mp3'', ''flac'', ''m4a''] then include_thumbnail a else False),
                with_metadata = include_metadata a,
                success = True\<rparr> st4)
      else (File_missing,
            append_error (''File not found after download: '' @ final) st4))))))"

text \<open>Lines 113-194: one iteration of \<^verbatim>\<open>for fmt in formats\<close>.\<close>

definition loop_body :: "('i, 'w) externals \<Rightarrow> arguments \<Rightarrow> string \<Rightarrow> 'w state \<Rightarrow> 'w state" where
  "loop_body E a fmt st =
     (case format_configs fmt of
        None \<Rightarrow> append_error (''Unsupported format: '' @ fmt) st
      | Some cfg \<Rightarrow>
          (case try_block E a fmt (build_ydl_opts a fmt cfg) st of
             (Raised e, st') \<Rightarrow> append_error (''Error downloading '' @ fmt @ '': '' @ e) st'
           | (_, st') \<Rightarrow> st'))"

text \<open>Line 112: the loop over the requested formats.\<close>

fun process_formats :: "('i, 'w) externals \<Rightarrow> arguments \<Rightarrow> string list \<Rightarrow> 'w state \<Rightarrow> 'w state" where
  "process_formats E a [] st = st"
| "process_formats E a (fmt # fmts) st = process_formats E a fmts (loop_body E a fmt st)"

text \<open>Lines 53-54.\<close>

definition requested :: "arguments \<Rightarrow> string list" where
  "requested a = (case arg_formats a of None \<Rightarrow> [''mp3''] | Some fs \<Rightarrow> fs)"

text \<open>Lines 105-110.\<close>

definition init_results :: "arguments \<Rightarrow> results" where
  "init_results a =
     \<lparr>url = arg_url a, formats_requested = requested a, downloads = [], errors = []\<rparr>"

text \<open>
  Lines 53-211. \<^verbatim>\<open>os.makedirs\<close> is outside the \<^verbatim>\<open>try\<close>: its exception leaves the
  function (\<open>Inl\<close>). Otherwise the function returns \<open>st_results\<close> of the final state;
  the world and the call log are its effects.
\<close>

definition download_youtube_media :: "('i, 'w) externals \<Rightarrow> arguments \<Rightarrow> 'w \<Rightarrow> string + 'w state" where
  "download_youtube_media E a w =
     (case makedirs E (output_dir a) w of
        (Inl e, w') \<Rightarrow> Inl e
      | (Inr _, w') \<Rightarrow>
          Inr (process_formats E a (requested a)
                 \<lparr>st_results = init_results a, world = w', calls = []\<rparr>))"

subsection \<open>Observations on the call log\<close>

text \<open>The calls of one complete session with the library, for one format.\<close>

definition session_calls :: "arguments \<Rightarrow> ydl_opts \<Rightarrow> ydl_call list" where
  "session_calls a opts =
     [New_YoutubeDL opts, Extract_info (arg_url a), Download [arg_url a], Prepare_filename]"

text \<open>The option dictionaries handed to the library, in the order of the log.\<close>

fun handed_over :: "ydl_call list \<Rightarrow> ydl_opts list" where
  "handed_over [] = []"
| "handed_over (New_YoutubeDL opts # cs) = opts # handed_over cs"
| "handed_over (_ # cs) = handed_over cs"


subsection \<open>Shorthand for the lemmas on the results\<close>

text \<open>
  \<open>produced_by E a s d\<close>: the success record \<open>d\<close> is the one an iteration started in the
  state \<open>s\<close> appends for the format \<open>format d\<close> (lines 159-185): the four calls to the
  library return, the path is the one computed at line 169 from the name the library
  gave, the file exists there, and the size is read from it in the same world.
\<close>

definition produced_by :: "('i, 'w) externals \<Rightarrow> arguments \<Rightarrow> 'w state \<Rightarrow> download_entry \<Rightarrow> bool" where
  "produced_by E a s d =
     (\<exists>cfg w1 info w2 w3 base_filename w4.
        format_configs (format d) = Some cfg \<and>
        YoutubeDL E (build_ydl_opts a (format d) cfg) (world s) = (Inr (), w1) \<and>
        extract_info E (build_ydl_opts a (format d) cfg) (arg_url a) w1 = (Inr info, w2) \<and>
        download E (build_ydl_opts a (format d) cfg) [arg_url a] w2 = (Inr (), w3) \<and>
        prepare_filename E (build_ydl_opts a (format d) cfg) info w3 = (Inr base_filename, w4) \<and>
        filename d = final_filename base_filename (format d) \<and>
        path_exists E (filename d) w4 \<and>
        size_mb d = Round2_MiB (path_getsize E (filename d) w4) \<and>
        with_thumbnail d = (format d \<in> {''mp3'', ''flac'', ''m4a''} \<and> include_thumbnail a) \<and>
        with_metadata d = include_metadata a \<and>
        success d)"

text \<open>\<open>error_of fmt e\<close>: \<open>e\<close> is one of the three error strings of an iteration for \<open>fmt\<close>.\<close>

definition error_of :: "string \<Rightarrow> string \<Rightarrow> bool" where
  "error_of fmt e =
     (e = ''Unsupported format: '' @ fmt \<or>
      (\<exists>x. e = ''Error downloading '' @ fmt @ '': '' @ x) \<or>
      (\<exists>b. e = ''File not found after download: '' @ final_filename b fmt))"

subsection \<open>A concrete library and file system\<close>

text \<open>
  A small world for concrete runs: the world is the list of the paths that exist. The
  video of every URL but \<open>''bad''\<close> has the title \<open>Title\<close>; a download leaves an mp3,
  an m4a and an mp4 file, so that a flac request ends without its file.
\<close>

definition demo_env :: "(string, string list) externals" where
  "demo_env =
     \<lparr>makedirs = (\<lambda>d w. if d = [] then (Inl ''FileNotFoundError'', w) else (Inr (), w)),
      YoutubeDL = (\<lambda>opts w. (Inr (), w)),
      extract_info = (\<lambda>opts u w.
         if u = ''bad'' then (Inl ''ERROR: bad is not a valid URL'', w) else (Inr ''Title'', w)),
      download = (\<lambda>opts us w. (Inr (), w @ [''Title.mp3'', ''Title.m4a'', ''Title.mp4''])),
      prepare_filename = (\<lambda>opts info w. (Inr (info @ ''.webm''), w)),
      path_exists = (\<lambda>p w. p \<in> set w),
      path_getsize = (\<lambda>p w. 3145728)\<rparr>"

definition demo_args :: arguments where
  "demo_args =
     \<lparr>arg_url = ''https://youtu.be/x'', arg_formats = Some [''mp3'', ''avi''],
      include_thumbnail = True, include_metadata = True, output_dir = ''downloads'',
      quality = ''192'', keep_original = False, quiet = False\<rparr>"

definition demo_state :: "string list state" where
  "demo_state = \<lparr>st_results = init_results demo_args, world = [], calls = []\<rparr>"


section \<open>Lemmas on the loop\<close>

lemma format_configs_dom:
  "(format_configs fmt \<noteq> None) =
     (fmt \<in> {''mp3'', ''mp4'', ''webm'', ''m4a'', ''flac'', ''wav'', ''ogg''})"
  by (simp add: format_configs_def)

lemma format_configs_None:
  "(format_configs fmt = None) =
     (fmt \<notin> {''mp3'', ''mp4'', ''webm'', ''m4a'', ''flac'', ''wav'', ''ogg''})"
  by (simp add: format_configs_def)

lemma handed_over_append: "handed_over (xs @ ys) = handed_over xs @ handed_over ys"
  by (induction xs rule: handed_over.induct) simp_all

lemma handed_over_session:
  "seg \<noteq> [] \<Longrightarrow> prefix seg (session_calls a opts) \<Longrightarrow> handed_over seg = [opts]"
  by (auto simp: session_calls_def prefix_Cons)

lemma call_effect:
  "call c f st = (r, st') \<Longrightarrow>
     st_results st' = st_results st \<and> calls st' = calls st @ [c] \<and> (r, world st') = f (world st)"
  by (auto simp: call_def split: prod.splits)

lemma try_block_calls:
  "try_block E a fmt opts st = (x, st') \<Longrightarrow>
     \<exists>seg. calls st' = calls st @ seg \<and> seg \<noteq> [] \<and> prefix seg (session_calls a opts)"
  unfolding try_block_def session_calls_def
  by (auto simp: Let_def append_download_def append_error_def 
         split: prod.splits sum.splits if_splits dest!: call_effect)

lemma try_block_raised:
  "try_block E a fmt opts st = (Raised e, st') \<Longrightarrow> st_results st' = st_results st"
  unfolding try_block_def
  by (auto simp: Let_def append_download_def append_error_def 
         split: prod.splits sum.splits if_splits dest!: call_effect)

lemma try_block_found:
  "try_block E a fmt opts st = (File_found, st') \<Longrightarrow>
     \<exists>base n. st_results st' = (st_results st)\<lparr>downloads := downloads (st_results st) @
        [\<lparr>format = fmt, filename = final_filename base fmt, size_mb = Round2_MiB n,
          with_thumbnail = (fmt \<in> {''mp3'', ''flac'', ''m4a''} \<and> include_thumbnail a),
          with_metadata = include_metadata a, success = True\<rparr>]\<rparr>"
  unfolding try_block_def
  apply (auto simp: Let_def append_download_def append_error_def 
         split: prod.splits sum.splits if_splits dest!: call_effect)
   apply blast+
  done

lemma try_block_missing:
  "try_block E a fmt opts st = (File_missing, st') \<Longrightarrow>
     \<exists>base. st_results st' = (st_results st)\<lparr>errors := errors (st_results st) @
        [''File not found after download: '' @ final_filename base fmt]\<rparr>"
  unfolding try_block_def
  by (auto simp: Let_def append_download_def append_error_def 
         split: prod.splits sum.splits if_splits dest!: call_effect)

lemma loop_body_unsupported:
  "format_configs fmt = None \<Longrightarrow>
     loop_body E a fmt st = append_error (''Unsupported format: '' @ fmt) st"
  by (simp add: loop_body_def)

lemma loop_body_supported:
  "format_configs fmt = Some cfg \<Longrightarrow> try_block E a fmt (build_ydl_opts a fmt cfg) st = (x, st') \<Longrightarrow>
     loop_body E a fmt st =
       (case x of Raised e \<Rightarrow> append_error (''Error downloading '' @ fmt @ '': '' @ e) st'
        | _ \<Rightarrow> st')"
  by (simp add: loop_body_def split: try_exit.splits)

lemma append_error_simps:
  "st_results (append_error e st) = (st_results st)\<lparr>errors := errors (st_results st) @ [e]\<rparr>"
  "calls (append_error e st) = calls st"
  "world (append_error e st) = world st"
  by (simp_all add: append_error_def)

lemma loop_body_calls:
  "\<exists>seg. calls (loop_body E a fmt st) = calls st @ seg \<and>
     (case format_configs fmt of None \<Rightarrow> seg = []
      | Some cfg \<Rightarrow> seg \<noteq> [] \<and> prefix seg (session_calls a (build_ydl_opts a fmt cfg)))"
proof (cases "format_configs fmt")
  case None
  then show ?thesis by (simp add: loop_body_unsupported append_error_simps)
next
  case (Some cfg)
  obtain x st' where t: "try_block E a fmt (build_ydl_opts a fmt cfg) st = (x, st')"
    by (cases "try_block E a fmt (build_ydl_opts a fmt cfg) st")
  from try_block_calls [OF t] obtain seg where
    "calls st' = calls st @ seg" "seg \<noteq> []" "prefix seg (session_calls a (build_ydl_opts a fmt cfg))"
    by blast
  moreover have "calls (loop_body E a fmt st) = calls st'"
    using loop_body_supported [OF Some t] by (cases x) (simp_all add: append_error_simps)
  ultimately show ?thesis using Some by simp
qed

lemma loop_body_results:
  "(\<exists>base n. format_configs fmt \<noteq> None \<and>
      st_results (loop_body E a fmt st) = (st_results st)\<lparr>downloads := downloads (st_results st) @
        [\<lparr>format = fmt, filename = final_filename base fmt, size_mb = Round2_MiB n,
          with_thumbnail = (fmt \<in> {''mp3'', ''flac'', ''m4a''} \<and> include_thumbnail a),
          with_metadata = include_metadata a, success = True\<rparr>]\<rparr>)
   \<or> (\<exists>e. st_results (loop_body E a fmt st) =
         (st_results st)\<lparr>errors := errors (st_results st) @ [e]\<rparr>)"
proof (cases "format_configs fmt")
  case None
  then have "st_results (loop_body E a fmt st) = (st_results st)\<lparr>errors := errors (st_results st) @
      [''Unsupported format: '' @ fmt]\<rparr>"
    by (simp add: loop_body_unsupported append_error_simps)
  then show ?thesis by blast
next
  case (Some cfg)
  obtain x st' where t: "try_block E a fmt (build_ydl_opts a fmt cfg) st = (x, st')"
    by (cases "try_block E a fmt (build_ydl_opts a fmt cfg) st")
  show ?thesis
  proof (cases x)
    case (Raised e)
    with t try_block_raised have "st_results st' = st_results st" by blast
    with loop_body_supported [OF Some t] Raised
    have "st_results (loop_body E a fmt st) = (st_results st)\<lparr>errors := errors (st_results st) @
      [''Error downloading '' @ fmt @ '': '' @ e]\<rparr>"
      by (simp add: append_error_simps)
    then show ?thesis by blast
  next
    case File_found
    with loop_body_supported [OF Some t] have "loop_body E a fmt st = st'" by simp
    with try_block_found [of E a fmt _ st st'] t File_found Some show ?thesis by blast
  next
    case File_missing
    with loop_body_supported [OF Some t] have "loop_body E a fmt st = st'" by simp
    with try_block_missing [of E a fmt _ st st'] t File_missing show ?thesis by blast
  qed
qed

lemma process_formats_append:
  "process_formats E a (xs @ ys) st = process_formats E a ys (process_formats E a xs st)"
  by (induction xs arbitrary: st) simp_all


lemma loop_body_handed_over:
  "handed_over (calls (loop_body E a fmt st)) =
     handed_over (calls st) @
       (case format_configs fmt of None \<Rightarrow> [] | Some cfg \<Rightarrow> [build_ydl_opts a fmt cfg])"
proof -
  from loop_body_calls [of E a fmt st] obtain seg where
    s: "calls (loop_body E a fmt st) = calls st @ seg"
       "case format_configs fmt of None \<Rightarrow> seg = []
        | Some cfg \<Rightarrow> seg \<noteq> [] \<and> prefix seg (session_calls a (build_ydl_opts a fmt cfg))"
    by blast
  show ?thesis
  proof (cases "format_configs fmt")
    case None
    with s show ?thesis by simp
  next
    case (Some cfg)
    with s have "handed_over seg = [build_ydl_opts a fmt cfg]"
      by (auto intro: handed_over_session)
    with s Some show ?thesis by (simp add: handed_over_append)
  qed
qed

lemma process_formats_handed_over:
  "handed_over (calls (process_formats E a fmts st)) =
     handed_over (calls st) @
       List.map_filter (\<lambda>fmt. map_option (build_ydl_opts a fmt) (format_configs fmt)) fmts"
proof (induction fmts arbitrary: st)
  case Nil
  show ?case by simp
next
  case (Cons fmt fmts)
  show ?case
    by (cases "format_configs fmt")
       (simp_all add: Cons.IH loop_body_handed_over)
qed

lemma loop_body_frame:
  "url (st_results (loop_body E a fmt st)) = url (st_results st) \<and>
   formats_requested (st_results (loop_body E a fmt st)) = formats_requested (st_results st)"
  using loop_body_results [of fmt E a st] by auto

lemma loop_body_grows:
  "prefix (downloads (st_results st)) (downloads (st_results (loop_body E a fmt st))) \<and>
   prefix (errors (st_results st)) (errors (st_results (loop_body E a fmt st)))"
  using loop_body_results [of fmt E a st] by auto

lemma loop_body_count:
  "length (downloads (st_results (loop_body E a fmt st))) +
   length (errors (st_results (loop_body E a fmt st))) =
   Suc (length (downloads (st_results st)) + length (errors (st_results st)))"
  using loop_body_results [of fmt E a st] by auto

lemma process_formats_frame:
  "url (st_results (process_formats E a fmts st)) = url (st_results st) \<and>
   formats_requested (st_results (process_formats E a fmts st)) = formats_requested (st_results st)"
  by (induction fmts arbitrary: st) (simp_all add: loop_body_frame)

lemma process_formats_grows:
  "prefix (downloads (st_results st)) (downloads (st_results (process_formats E a fmts st))) \<and>
   prefix (errors (st_results st)) (errors (st_results (process_formats E a fmts st)))"
proof (induction fmts arbitrary: st)
  case Nil
  show ?case by simp
next
  case (Cons fmt fmts)
  from loop_body_grows [of st E a fmt] Cons.IH [of "loop_body E a fmt st"]
  show ?case by (auto intro: prefix_order.trans)
qed

lemma process_formats_count:
  "length (downloads (st_results (process_formats E a fmts st))) +
   length (errors (st_results (process_formats E a fmts st))) =
   length (downloads (st_results st)) + length (errors (st_results st)) + length fmts"
  by (induction fmts arbitrary: st) (simp_all add: loop_body_count)


lemma download_youtube_media_returns:
  "makedirs E (output_dir a) w = (Inr u, w') \<Longrightarrow>
     download_youtube_media E a w =
       Inr (process_formats E a (requested a)
              \<lparr>st_results = init_results a, world = w', calls = []\<rparr>)"
  by (simp add: download_youtube_media_def)

lemma download_youtube_media_Inr:
  "download_youtube_media E a w = Inr st \<Longrightarrow>
     \<exists>w'. st = process_formats E a (requested a)
              \<lparr>st_results = init_results a, world = w', calls = []\<rparr>"
  by (auto simp: download_youtube_media_def split: prod.splits sum.splits)

text \<open>The entries of the format table, one case per key.\<close>

lemma format_configs_cases:
  assumes "format_configs fmt = Some cfg"
  obtains
    "fmt = ''mp3''" "cfg = \<lparr>cfg_format = ''bestaudio/best'', cfg_postprocessors = [], cfg_ext = ''mp3''\<rparr>"
  | "fmt = ''mp4''" "cfg = \<lparr>cfg_format = ''best[ext=mp4]/best'', cfg_postprocessors = [], cfg_ext = ''mp4''\<rparr>"
  | "fmt = ''webm''" "cfg = \<lparr>cfg_format = ''best[ext=webm]/best'', cfg_postprocessors = [], cfg_ext = ''webm''\<rparr>"
  | "fmt = ''m4a''" "cfg = \<lparr>cfg_format = ''bestaudio[ext=m4a]/bestaudio'', cfg_postprocessors = [], cfg_ext = ''m4a''\<rparr>"
  | "fmt = ''flac''" "cfg = \<lparr>cfg_format = ''bestaudio/best'', cfg_postprocessors = [extract_audio ''flac''], cfg_ext = ''flac''\<rparr>"
  | "fmt = ''wav''" "cfg = \<lparr>cfg_format = ''bestaudio/best'', cfg_postprocessors = [extract_audio ''wav''], cfg_ext = ''wav''\<rparr>"
  | "fmt = ''ogg''" "cfg = \<lparr>cfg_format = ''bestaudio/best'', cfg_postprocessors = [extract_audio ''vorbis''], cfg_ext = ''ogg''\<rparr>"
  using assms unfolding format_configs_def
  by (simp split: if_splits)

text \<open>Only the branch of \<open>mp3\<close> reads \<open>quality\<close>.\<close>

lemma build_ydl_opts_quality:
  assumes "fmt \<noteq> ''mp3''"
  shows "build_ydl_opts (a\<lparr>quality := q\<rparr>) fmt cfg = build_ydl_opts a fmt cfg"
proof -
  have f: "(fmt = ''mp3'') = False" using assms by (rule eq_False [THEN iffD2])
  have s: "output_dir (a\<lparr>quality := q\<rparr>) = output_dir a"
    "quiet (a\<lparr>quality := q\<rparr>) = quiet a"
    "include_thumbnail (a\<lparr>quality := q\<rparr>) = include_thumbnail a"
    "include_metadata (a\<lparr>quality := q\<rparr>) = include_metadata a"
    "keep_original (a\<lparr>quality := q\<rparr>) = keep_original a"
    by simp_all
  show ?thesis
    unfolding build_ydl_opts_def f if_False
    by (simp only: s)
qed

lemma requested_quality: "requested (a\<lparr>quality := q\<rparr>) = requested a"
  by (simp add: requested_def)

lemma map_filter_as_map:
  "List.map_filter g xs = map (\<lambda>x. the (g x)) (filter (\<lambda>x. g x \<noteq> None) xs)"
  by (simp add: List.map_filter_def comp_def)

lemma filter_zip_map:
  "filter (\<lambda>(x, y). Q x) (zip xs (map h xs)) = map (\<lambda>x. (x, h x)) (filter Q xs)"
  by (induction xs) simp_all

text \<open>
  The dictionaries handed over, paired with the supported requested formats they were
  built for.
\<close>

lemma handed_over_pairs:
  assumes "download_youtube_media E a w = Inr st"
  shows "filter (\<lambda>(fmt, opts). Q fmt)
           (zip (filter (\<lambda>fmt. format_configs fmt \<noteq> None) (requested a))
                (handed_over (calls st))) =
         map (\<lambda>fmt. (fmt, the (map_option (build_ydl_opts a fmt) (format_configs fmt))))
           (filter Q (filter (\<lambda>fmt. format_configs fmt \<noteq> None) (requested a)))"
proof -
  from download_youtube_media_Inr [OF assms] obtain w' where
    st: "st = process_formats E a (requested a)
              \<lparr>st_results = init_results a, world = w', calls = []\<rparr>" by blast
  have "handed_over (calls st) =
      List.map_filter (\<lambda>fmt. map_option (build_ydl_opts a fmt) (format_configs fmt)) (requested a)"
    unfolding st
    using process_formats_handed_over
      [of E a "requested a" "\<lparr>st_results = init_results a, world = w', calls = []\<rparr>"]
    by simp
  then have h: "handed_over (calls st) =
      map (\<lambda>fmt. the (map_option (build_ydl_opts a fmt) (format_configs fmt)))
        (filter (\<lambda>fmt. format_configs fmt \<noteq> None) (requested a))"
    by (simp add: map_filter_as_map)
  show ?thesis unfolding h by (rule filter_zip_map)
qed

text \<open>A concrete m4a request, evaluated.\<close>

lemma demo_m4a_opts:
  "build_ydl_opts (demo_args\<lparr>arg_formats := Some [''m4a'']\<rparr>) ''m4a''
     \<lparr>cfg_format = ''bestaudio[ext=m4a]/bestaudio'', cfg_postprocessors = [], cfg_ext = ''m4a''\<rparr> =
   \<lparr>opt_format = ''bestaudio[ext=m4a]/bestaudio'', outtmpl = ''downloads/%(title)s_m4a.%(ext)s'',
     opt_quiet = False, no_warnings = False, no_color = True, ignoreerrors = False,
     writethumbnail = None, keepvideo = None, postprocessors = None\<rparr>"
  by (simp add: build_ydl_opts_def Let_def demo_args_def os_path_join_def)

lemma demo_m4a_loop_body:
  "loop_body demo_env (demo_args\<lparr>arg_formats := Some [''m4a'']\<rparr>) ''m4a''
     \<lparr>st_results = init_results (demo_args\<lparr>arg_formats := Some [''m4a'']\<rparr>),
       world = [], calls = []\<rparr> =
   \<lparr>st_results =
      \<lparr>url = ''https://youtu.be/x'', formats_requested = [''m4a''],
        downloads =
          [\<lparr>format = ''m4a'', filename = ''Title.m4a'', size_mb = Round2_MiB 3145728,
            with_thumbnail = True, with_metadata = True, success = True\<rparr>],
        errors = []\<rparr>,
     world = [''Title.mp3'', ''Title.m4a'', ''Title.mp4''],
     calls =
       [New_YoutubeDL
          \<lparr>opt_format = ''bestaudio[ext=m4a]/bestaudio'',
            outtmpl = ''downloads/%(title)s_m4a.%(ext)s'',
            opt_quiet = False, no_warnings = False, no_color = True, ignoreerrors = False,
            writethumbnail = None, keepvideo = None, postprocessors = None\<rparr>,
        Extract_info ''https://youtu.be/x'', Download [''https://youtu.be/x''],
        Prepare_filename]\<rparr>"
proof -
  have c: "format_configs ''m4a'' =
      Some \<lparr>cfg_format = ''bestaudio[ext=m4a]/bestaudio'', cfg_postprocessors = [],
        cfg_ext = ''m4a''\<rparr>"
    by (simp add: format_configs_def)
  have f: "final_filename ''Title.webm'' ''m4a'' = ''Title.m4a''"
    by (simp add: final_filename_def rsplit_dot_head_def)
  show ?thesis
    unfolding loop_body_def c option.case demo_m4a_opts
    by (simp add: try_block_def call_def Let_def demo_env_def demo_args_def init_results_def
          requested_def append_download_def f)
qed



lemma loop_body_new_raises:
  assumes "format_configs fmt = Some cfg"
    and "YoutubeDL E (build_ydl_opts a fmt cfg) (world st) = (Inl e, w1)"
  shows "loop_body E a fmt st =
     append_error (''Error downloading '' @ fmt @ '': '' @ e)
       (st\<lparr>world := w1, calls := calls st @ [New_YoutubeDL (build_ydl_opts a fmt cfg)]\<rparr>)"
  using assms by (simp add: loop_body_def try_block_def call_def)

lemma loop_body_extract_raises:
  assumes "format_configs fmt = Some cfg"
    and "YoutubeDL E (build_ydl_opts a fmt cfg) (world st) = (Inr u, w1)"
    and "extract_info E (build_ydl_opts a fmt cfg) (arg_url a) w1 = (Inl e, w2)"
  shows "loop_body E a fmt st =
     append_error (''Error downloading '' @ fmt @ '': '' @ e)
       (st\<lparr>world := w2, calls := calls st @
          [New_YoutubeDL (build_ydl_opts a fmt cfg), Extract_info (arg_url a)]\<rparr>)"
  using assms by (simp add: loop_body_def try_block_def call_def)

lemma loop_body_download_raises:
  assumes "format_configs fmt = Some cfg"
    and "YoutubeDL E (build_ydl_opts a fmt cfg) (world st) = (Inr u, w1)"
    and "extract_info E (build_ydl_opts a fmt cfg) (arg_url a) w1 = (Inr info, w2)"
    and "download E (build_ydl_opts a fmt cfg) [arg_url a] w2 = (Inl e, w3)"
  shows "loop_body E a fmt st =
     append_error (''Error downloading '' @ fmt @ '': '' @ e)
       (st\<lparr>world := w3, calls := calls st @
          [New_YoutubeDL (build_ydl_opts a fmt cfg), Extract_info (arg_url a),
           Download [arg_url a]]\<rparr>)"
  using assms by (simp add: loop_body_def try_block_def call_def)

lemma loop_body_prepare_raises:
  assumes "format_configs fmt = Some cfg"
    and "YoutubeDL E (build_ydl_opts a fmt cfg) (world st) = (Inr u, w1)"
    and "extract_info E (build_ydl_opts a fmt cfg) (arg_url a) w1 = (Inr info, w2)"
    and "download E (build_ydl_opts a fmt cfg) [arg_url a] w2 = (Inr u', w3)"
    and "prepare_filename E (build_ydl_opts a fmt cfg) info w3 = (Inl e, w4)"
  shows "loop_body E a fmt st =
     append_error (''Error downloading '' @ fmt @ '': '' @ e)
       (st\<lparr>world := w4, calls := calls st @ session_calls a (build_ydl_opts a fmt cfg)\<rparr>)"
  using assms by (simp add: loop_body_def try_block_def call_def session_calls_def)

lemma loop_body_returns:
  assumes "format_configs fmt = Some cfg"
    and "YoutubeDL E (build_ydl_opts a fmt cfg) (world st) = (Inr u, w1)"
    and "extract_info E (build_ydl_opts a fmt cfg) (arg_url a) w1 = (Inr info, w2)"
    and "download E (build_ydl_opts a fmt cfg) [arg_url a] w2 = (Inr u', w3)"
    and "prepare_filename E (build_ydl_opts a fmt cfg) info w3 = (Inr base_filename, w4)"
  shows "loop_body E a fmt st =
     (if path_exists E (final_filename base_filename fmt) w4
      then append_download
             \<lparr>format = fmt, filename = final_filename base_filename fmt,
               size_mb = Round2_MiB (path_getsize E (final_filename base_filename fmt) w4),
               with_thumbnail = (fmt \<in> {''mp3'', ''flac'', ''m4a''} \<and> include_thumbnail a),
               with_metadata = include_metadata a, success = True\<rparr>
             (st\<lparr>world := w4, calls := calls st @ session_calls a (build_ydl_opts a fmt cfg)\<rparr>)
      else append_error (''File not found after download: '' @ final_filename base_filename fmt)
             (st\<lparr>world := w4, calls := calls st @ session_calls a (build_ydl_opts a fmt cfg)\<rparr>))"
  using assms
  by (simp add: loop_body_def try_block_def call_def session_calls_def Let_def)

text \<open>The library raises in one of the four calls, or all four return.\<close>

lemma library_cases:
  obtains (new_raises) e w1 where "YoutubeDL E opts w = (Inl e, w1)"
  | (extract_raises) u w1 e w2 where "YoutubeDL E opts w = (Inr u, w1)"
      "extract_info E opts x w1 = (Inl e, w2)"
  | (download_raises) u w1 info w2 e w3 where "YoutubeDL E opts w = (Inr u, w1)"
      "extract_info E opts x w1 = (Inr info, w2)" "download E opts [x] w2 = (Inl e, w3)"
  | (prepare_raises) u w1 info w2 u' w3 e w4 where "YoutubeDL E opts w = (Inr u, w1)"
      "extract_info E opts x w1 = (Inr info, w2)" "download E opts [x] w2 = (Inr u', w3)"
      "prepare_filename E opts info w3 = (Inl e, w4)"
  | (returns) u w1 info w2 u' w3 base_filename w4 where "YoutubeDL E opts w = (Inr u, w1)"
      "extract_info E opts x w1 = (Inr info, w2)" "download E opts [x] w2 = (Inr u', w3)"
      "prepare_filename E opts info w3 = (Inr base_filename, w4)"
proof (cases "YoutubeDL E opts w")
  case y: (Pair r1 w1)
  show ?thesis
  proof (cases r1)
    case (Inl e)
    with y show ?thesis by (simp add: new_raises)
  next
    case r1: (Inr u)
    show ?thesis
    proof (cases "extract_info E opts x w1")
      case x: (Pair r2 w2)
      show ?thesis
      proof (cases r2)
        case (Inl e)
        with y r1 x show ?thesis by (simp add: extract_raises)
      next
        case r2: (Inr info)
        show ?thesis
        proof (cases "download E opts [x] w2")
          case d: (Pair r3 w3)
          show ?thesis
          proof (cases r3)
            case (Inl e)
            with y r1 x r2 d show ?thesis by (simp add: download_raises)
          next
            case r3: (Inr u')
            show ?thesis
            proof (cases "prepare_filename E opts info w3")
              case p: (Pair r4 w4)
              show ?thesis
              proof (cases r4)
                case (Inl e)
                with y r1 x r2 d r3 p show ?thesis by (simp add: prepare_raises)
              next
                case (Inr base_filename)
                with y r1 x r2 d r3 p show ?thesis by (simp add: returns)
              qed
            qed
          qed
        qed
      qed
    qed
  qed
qed

text \<open>Every iteration appends one success record of the library's making, or one error.\<close>

lemma error_of_unsupported: "error_of fmt (''Unsupported format: '' @ fmt)"
  unfolding error_of_def by (rule disjI1) (rule refl)

lemma error_of_raised: "error_of fmt (''Error downloading '' @ fmt @ '': '' @ x)"
  unfolding error_of_def by (rule disjI2, rule disjI1, rule exI [of _ x]) (rule refl)

lemma error_of_missing: "error_of fmt (''File not found after download: '' @ final_filename b fmt)"
  unfolding error_of_def by (rule disjI2, rule disjI2, rule exI [of _ b]) (rule refl)

lemma produced_by_record:
  assumes "format_configs fmt = Some cfg"
    and "YoutubeDL E (build_ydl_opts a fmt cfg) (world s) = (Inr (), w1)"
    and "extract_info E (build_ydl_opts a fmt cfg) (arg_url a) w1 = (Inr info, w2)"
    and "download E (build_ydl_opts a fmt cfg) [arg_url a] w2 = (Inr (), w3)"
    and "prepare_filename E (build_ydl_opts a fmt cfg) info w3 = (Inr base_filename, w4)"
    and "path_exists E (final_filename base_filename fmt) w4"
  shows "produced_by E a s
     \<lparr>format = fmt, filename = final_filename base_filename fmt,
       size_mb = Round2_MiB (path_getsize E (final_filename base_filename fmt) w4),
       with_thumbnail = (fmt \<in> {''mp3'', ''flac'', ''m4a''} \<and> include_thumbnail a),
       with_metadata = include_metadata a, success = True\<rparr>"
  unfolding produced_by_def
  apply (rule exI [of _ cfg], rule exI [of _ w1], rule exI [of _ info], rule exI [of _ w2],
      rule exI [of _ w3], rule exI [of _ base_filename], rule exI [of _ w4])
  using assms apply simp
  done

lemma loop_body_outcome:
  "(\<exists>d. st_results (loop_body E a fmt s) =
          (st_results s)\<lparr>downloads := downloads (st_results s) @ [d]\<rparr> \<and>
        format d = fmt \<and> produced_by E a s d) \<or>
   (\<exists>e. st_results (loop_body E a fmt s) =
          (st_results s)\<lparr>errors := errors (st_results s) @ [e]\<rparr> \<and>
        error_of fmt e)"
    (is "(\<exists>d. ?D d) \<or> (\<exists>e. ?R e)")
proof (cases "format_configs fmt")
  case None
  define m where "m = ''Unsupported format: '' @ fmt"
  have r: "st_results (loop_body E a fmt s) =
      (st_results s)\<lparr>errors := errors (st_results s) @ [m]\<rparr>"
    unfolding m_def using None by (simp add: loop_body_unsupported append_error_simps)
  have e: "error_of fmt m"
    unfolding m_def by (rule error_of_unsupported)
  have "?R m" by (rule conjI [OF r e])
  then have "\<exists>e. ?R e" by (rule exI [of ?R])
  then show ?thesis by (rule disjI2)
next
  case cfg: (Some cfg)
  define err where "err = (\<lambda>e. ''Error downloading '' @ fmt @ '': '' @ e)"
  have eo: "\<And>e. error_of fmt (err e)"
    unfolding err_def by (rule error_of_raised)
  show ?thesis
  proof (cases rule: library_cases [where E = E and opts = "build_ydl_opts a fmt cfg"
        and w = "world s" and x = "arg_url a"])
    case (new_raises e w1)
    have r: "st_results (loop_body E a fmt s) =
        (st_results s)\<lparr>errors := errors (st_results s) @ [err e]\<rparr>"
      unfolding err_def using loop_body_new_raises [OF cfg new_raises]
      by (simp add: append_error_simps)
    have "?R (err e)" by (rule conjI [OF r eo])
    then have "\<exists>e. ?R e" by (rule exI [of ?R])
    then show ?thesis by (rule disjI2)
  next
    case (extract_raises u w1 e w2)
    have r: "st_results (loop_body E a fmt s) =
        (st_results s)\<lparr>errors := errors (st_results s) @ [err e]\<rparr>"
      unfolding err_def using loop_body_extract_raises [OF cfg extract_raises]
      by (simp add: append_error_simps)
    have "?R (err e)" by (rule conjI [OF r eo])
    then have "\<exists>e. ?R e" by (rule exI [of ?R])
    then show ?thesis by (rule disjI2)
  next
    case (download_raises u w1 info w2 e w3)
    have r: "st_results (loop_body E a fmt s) =
        (st_results s)\<lparr>errors := errors (st_results s) @ [err e]\<rparr>"
      unfolding err_def using loop_body_download_raises [OF cfg download_raises]
      by (simp add: append_error_simps)
    have "?R (err e)" by (rule conjI [OF r eo])
    then have "\<exists>e. ?R e" by (rule exI [of ?R])
    then show ?thesis by (rule disjI2)
  next
    case (prepare_raises u w1 info w2 u' w3 e w4)
    have r: "st_results (loop_body E a fmt s) =
        (st_results s)\<lparr>errors := errors (st_results s) @ [err e]\<rparr>"
      unfolding err_def using loop_body_prepare_raises [OF cfg prepare_raises]
      by (simp add: append_error_simps)
    have "?R (err e)" by (rule conjI [OF r eo])
    then have "\<exists>e. ?R e" by (rule exI [of ?R])
    then show ?thesis by (rule disjI2)
  next
    case (returns u w1 info w2 u' w3 base_filename w4)
    note l = loop_body_returns [OF cfg returns]
    show ?thesis
    proof (cases "path_exists E (final_filename base_filename fmt) w4")
      case True
      define d where "d = \<lparr>format = fmt, filename = final_filename base_filename fmt,
          size_mb = Round2_MiB (path_getsize E (final_filename base_filename fmt) w4),
          with_thumbnail = (fmt \<in> {''mp3'', ''flac'', ''m4a''} \<and> include_thumbnail a),
          with_metadata = include_metadata a, success = True\<rparr>"
      have p: "produced_by E a s d"
        unfolding d_def using cfg returns True
        by (intro produced_by_record) simp_all
      have f: "format d = fmt" unfolding d_def by simp
      have r: "st_results (loop_body E a fmt s) =
          (st_results s)\<lparr>downloads := downloads (st_results s) @ [d]\<rparr>"
        using l True unfolding d_def by (simp add: append_download_def)
      have "?D d" by (rule conjI [OF r conjI [OF f p]])
      then have "\<exists>d. ?D d" by (rule exI [of ?D])
      then show ?thesis by (rule disjI1)
    next
      case False
      define m where "m = ''File not found after download: '' @ final_filename base_filename fmt"
      have r: "st_results (loop_body E a fmt s) =
          (st_results s)\<lparr>errors := errors (st_results s) @ [m]\<rparr>"
        unfolding m_def using l False by (simp add: append_error_simps)
      have e: "error_of fmt m"
        unfolding m_def by (rule error_of_missing)
      have "?R m" by (rule conjI [OF r e])
      then have "\<exists>e. ?R e" by (rule exI [of ?R])
      then show ?thesis by (rule disjI2)
    qed
  qed
qed

lemma process_formats_outcome:
  "\<exists>ds es.
     downloads (st_results (process_formats E a fmts s)) = downloads (st_results s) @ ds \<and>
     errors (st_results (process_formats E a fmts s)) = errors (st_results s) @ es \<and>
     subseq (map format ds) fmts \<and>
     (\<forall>d \<in> set ds. \<exists>p q. fmts = p @ format d # q \<and>
        produced_by E a (process_formats E a p s) d) \<and>
     (\<forall>e \<in> set es. \<exists>f \<in> set fmts. error_of f e)"
proof (induction fmts arbitrary: s)
  case Nil
  show ?case by simp
next
  case (Cons f fs)
  define s' where "s' = loop_body E a f s"
  from Cons.IH [of s'] obtain ds es where
    ih: "downloads (st_results (process_formats E a fs s')) = downloads (st_results s') @ ds"
      "errors (st_results (process_formats E a fs s')) = errors (st_results s') @ es"
      "subseq (map format ds) fs"
      "\<forall>d \<in> set ds. \<exists>p q. fs = p @ format d # q \<and> produced_by E a (process_formats E a p s') d"
      "\<forall>e \<in> set es. \<exists>f \<in> set fs. error_of f e"
    by blast
  have lift: "\<forall>d \<in> set ds. \<exists>p q. f # fs = p @ format d # q \<and>
      produced_by E a (process_formats E a p s) d"
  proof
    fix d assume "d \<in> set ds"
    with ih(4) obtain p q where
      pq: "fs = p @ format d # q" "produced_by E a (process_formats E a p s') d" by blast
    have "f # fs = (f # p) @ format d # q \<and> produced_by E a (process_formats E a (f # p) s) d"
      using pq by (simp add: s'_def)
    then show "\<exists>p q. f # fs = p @ format d # q \<and> produced_by E a (process_formats E a p s) d"
      by blast
  qed
  have lifte: "\<forall>e \<in> set es. \<exists>g \<in> set (f # fs). error_of g e"
    using ih(5) by auto
  have step: "process_formats E a (f # fs) s = process_formats E a fs s'"
    by (simp add: s'_def)
  from loop_body_outcome [of E a f s]
  show ?case
  proof (elim disjE exE conjE)
    fix d
    assume r: "st_results (loop_body E a f s) =
        (st_results s)\<lparr>downloads := downloads (st_results s) @ [d]\<rparr>"
      and fd: "format d = f" and pd: "produced_by E a s d"
    have r': "st_results s' = (st_results s)\<lparr>downloads := downloads (st_results s) @ [d]\<rparr>"
      unfolding s'_def by (rule r)
    have 1: "downloads (st_results (process_formats E a (f # fs) s)) =
        downloads (st_results s) @ (d # ds)"
      unfolding step ih(1) r' by simp
    have 2: "errors (st_results (process_formats E a (f # fs) s)) = errors (st_results s) @ es"
      unfolding step ih(2) r' by simp
    have 3: "subseq (map format (d # ds)) (f # fs)"
      using ih(3) fd by simp
    have "\<exists>p q. f # fs = p @ format d # q \<and> produced_by E a (process_formats E a p s) d"
      using fd pd by (intro exI [of _ "[]"] exI [of _ fs]) simp
    then have 4: "\<forall>d' \<in> set (d # ds). \<exists>p q. f # fs = p @ format d' # q \<and>
        produced_by E a (process_formats E a p s) d'"
      using lift by simp
    from 1 2 3 4 lifte show ?thesis by blast
  next
    fix e
    assume r: "st_results (loop_body E a f s) =
        (st_results s)\<lparr>errors := errors (st_results s) @ [e]\<rparr>"
      and ee: "error_of f e"
    have r': "st_results s' = (st_results s)\<lparr>errors := errors (st_results s) @ [e]\<rparr>"
      unfolding s'_def by (rule r)
    have 1: "downloads (st_results (process_formats E a (f # fs) s)) =
        downloads (st_results s) @ ds"
      unfolding step ih(1) r' by simp
    have 2: "errors (st_results (process_formats E a (f # fs) s)) =
        errors (st_results s) @ (e # es)"
      unfolding step ih(2) r' by simp
    have 3: "subseq (map format ds) (f # fs)"
      using ih(3) by (rule list_emb_Cons)
    have 5: "\<forall>e' \<in> set (e # es). \<exists>g \<in> set (f # fs). error_of g e'"
      using lifte ee by simp
    from 1 2 3 lift 5 show ?thesis by blast
  qed
qed

text \<open>An \<open>avi\<close> request in any world.\<close>

lemma demo_avi_state:
  "loop_body E a ''avi'' s = append_error ''Unsupported format: avi'' s"
  by (simp add: loop_body_def format_configs_def)

section \<open>The claims\<close>

text \<open>
  C7. The results record only accumulates during a run: \<open>url\<close> and \<open>formats_requested\<close>
  are set at initialization and never modified afterward, and \<open>downloads\<close> and \<open>errors\<close>
  only grow by appending at the end. Stated for the loop started in any state \<open>st\<close>, hence
  between any two moments of a run: the two fields are those of \<open>st\<close>, and the two lists
  of \<open>st\<close> are prefixes of the later ones.
\<close>

theorem C7_results_only_grow:
  "url (st_results (process_formats E a fmts st)) = url (st_results st) \<and>
   formats_requested (st_results (process_formats E a fmts st)) = formats_requested (st_results st) \<and>
   prefix (downloads (st_results st)) (downloads (st_results (process_formats E a fmts st))) \<and>
   prefix (errors (st_results st)) (errors (st_results (process_formats E a fmts st)))"
  using process_formats_frame [of E a fmts st] process_formats_grows [of st E a fmts]
  by simp

text \<open>
  Witness of C7: the loop over \<open>mp3\<close> and \<open>avi\<close>, started with one error string already
  recorded; the string is still the first one afterwards.
\<close>

theorem C7_witness:
  "url (st_results (process_formats demo_env demo_args [''mp3'', ''avi'']
      (append_error ''earlier'' demo_state))) = ''https://youtu.be/x'' \<and>
   prefix [''earlier''] (errors (st_results (process_formats demo_env demo_args [''mp3'', ''avi'']
      (append_error ''earlier'' demo_state))))"
  using C7_results_only_grow
    [of demo_env demo_args "[''mp3'', ''avi'']" "append_error ''earlier'' demo_state"]
  by (simp add: append_error_simps demo_state_def init_results_def demo_args_def)

text \<open>
  C8. Each requested format contributes exactly one entry to the results record, a success
  record or an error string: when \<^verbatim>\<open>os.makedirs\<close> does not raise, the function returns,
  and the length of \<open>downloads\<close> plus the length of \<open>errors\<close> is the length of the
  requested format list.
\<close>

theorem C8_one_entry_per_format:
  assumes "makedirs E (output_dir a) w = (Inr u, w')"
  shows "\<exists>st. download_youtube_media E a w = Inr st \<and>
           formats_requested (st_results st) = requested a \<and>
           length (downloads (st_results st)) + length (errors (st_results st)) =
             length (requested a)"
proof -
  let ?st0 = "\<lparr>st_results = init_results a, world = w', calls = []\<rparr>"
  have "download_youtube_media E a w = Inr (process_formats E a (requested a) ?st0)"
    using assms by (rule download_youtube_media_returns)
  moreover have "formats_requested (st_results (process_formats E a (requested a) ?st0)) =
      requested a"
    by (simp add: process_formats_frame init_results_def)
  moreover have "length (downloads (st_results (process_formats E a (requested a) ?st0))) +
      length (errors (st_results (process_formats E a (requested a) ?st0))) = length (requested a)"
    by (simp add: process_formats_count init_results_def)
  ultimately show ?thesis by simp
qed

text \<open>Witness of C8: two requested formats, two entries.\<close>

theorem C8_witness:
  "\<exists>st. download_youtube_media demo_env demo_args [] = Inr st \<and>
           formats_requested (st_results st) = [''mp3'', ''avi''] \<and>
           length (downloads (st_results st)) + length (errors (st_results st)) = 2"
proof -
  have m: "makedirs demo_env (output_dir demo_args) [] = (Inr (), [])"
    by (simp add: demo_env_def demo_args_def)
  have r: "requested demo_args = [''mp3'', ''avi'']"
    by (simp add: requested_def demo_args_def)
  from C8_one_entry_per_format [OF m] obtain st where
    "download_youtube_media demo_env demo_args [] = Inr st"
    "formats_requested (st_results st) = requested demo_args"
    "length (downloads (st_results st)) + length (errors (st_results st)) =
       length (requested demo_args)"
    by blast
  then have "download_youtube_media demo_env demo_args [] = Inr st \<and>
           formats_requested (st_results st) = [''mp3'', ''avi''] \<and>
           length (downloads (st_results st)) + length (errors (st_results st)) = 2"
    by (simp add: r)
  then show ?thesis ..
qed

text \<open>
  C9. For a requested format outside \<open>{mp3, mp4, webm, m4a, flac, wav, ogg}\<close> the iteration
  appends \<open>Unsupported format: <fmt>\<close> to \<open>errors\<close>, changes nothing else (the call log
  is the same: the library is not invoked), and the loop goes on with the formats that
  follow.
\<close>

theorem C9_unsupported_format:
  assumes "fmt \<notin> {''mp3'', ''mp4'', ''webm'', ''m4a'', ''flac'', ''wav'', ''ogg''}"
  shows "loop_body E a fmt st =
           st\<lparr>st_results := (st_results st)\<lparr>errors := errors (st_results st) @
                [''Unsupported format: '' @ fmt]\<rparr>\<rparr> \<and>
         calls (loop_body E a fmt st) = calls st \<and>
         process_formats E a (pre @ fmt # post) st0 =
           process_formats E a post
             ((process_formats E a pre st0)\<lparr>st_results :=
                (st_results (process_formats E a pre st0))\<lparr>errors :=
                   errors (st_results (process_formats E a pre st0)) @
                   [''Unsupported format: '' @ fmt]\<rparr>\<rparr>)"
proof -
  have n: "format_configs fmt = None"
    using assms by (simp only: format_configs_None not_False_eq_True)
  have l: "\<And>s. loop_body E a fmt s =
      s\<lparr>st_results := (st_results s)\<lparr>errors := errors (st_results s) @
                [''Unsupported format: '' @ fmt]\<rparr>\<rparr>"
    using n by (simp add: loop_body_unsupported append_error_def)
  have c: "calls (loop_body E a fmt st) = calls st"
    using n by (simp add: loop_body_unsupported append_error_simps)
  have p: "process_formats E a (pre @ fmt # post) st0 =
      process_formats E a post (loop_body E a fmt (process_formats E a pre st0))"
    by (simp add: process_formats_append)
  show ?thesis
    using l [of st] c p l [of "process_formats E a pre st0"] by (simp only: simp_thms)
qed

text \<open>Witness of C9: the format \<open>avi\<close>.\<close>

theorem C9_witness:
  "loop_body demo_env demo_args ''avi'' demo_state =
     demo_state\<lparr>st_results := (st_results demo_state)\<lparr>errors := [''Unsupported format: avi'']\<rparr>\<rparr> \<and>
   calls (loop_body demo_env demo_args ''avi'' demo_state) = []"
proof -
  have "''avi'' \<notin> {''mp3'', ''mp4'', ''webm'', ''m4a'', ''flac'', ''wav'', ''ogg''}" by simp
  from C9_unsupported_format [OF this, of demo_env demo_args demo_state] show ?thesis
    by (simp add: demo_state_def init_results_def)
qed





text \<open>
  C2. After the calls to the library for a format have returned, the iteration looks for
  the expected output file: when it exists, a success record with the size of the file is
  appended to \<open>downloads\<close> and \<open>errors\<close> is left as it is; otherwise
  \<open>File not found after download: <path>\<close> is appended to \<open>errors\<close> and \<open>downloads\<close>
  is left as it is.
\<close>

theorem C2_file_check:
  assumes "format_configs fmt = Some cfg"
    and "YoutubeDL E (build_ydl_opts a fmt cfg) (world st) = (Inr (), w1)"
    and "extract_info E (build_ydl_opts a fmt cfg) (arg_url a) w1 = (Inr info, w2)"
    and "download E (build_ydl_opts a fmt cfg) [arg_url a] w2 = (Inr (), w3)"
    and "prepare_filename E (build_ydl_opts a fmt cfg) info w3 = (Inr base_filename, w4)"
  shows "st_results (loop_body E a fmt st) =
     (if path_exists E (final_filename base_filename fmt) w4
      then (st_results st)\<lparr>downloads := downloads (st_results st) @
             [\<lparr>format = fmt, filename = final_filename base_filename fmt,
               size_mb = Round2_MiB (path_getsize E (final_filename base_filename fmt) w4),
               with_thumbnail = (fmt \<in> {''mp3'', ''flac'', ''m4a''} \<and> include_thumbnail a),
               with_metadata = include_metadata a, success = True\<rparr>]\<rparr>
      else (st_results st)\<lparr>errors := errors (st_results st) @
             [''File not found after download: '' @ final_filename base_filename fmt]\<rparr>)"
  using assms
  by (simp add: loop_body_def try_block_def call_def Let_def append_download_def
        append_error_def)

text \<open>
  Witness of C2: in the concrete world the mp3 file exists after the download and the
  flac file does not.
\<close>

theorem C2_witness:
  "downloads (st_results (loop_body demo_env demo_args ''mp3'' demo_state)) =
     [\<lparr>format = ''mp3'', filename = ''Title.mp3'', size_mb = Round2_MiB 3145728,
       with_thumbnail = True, with_metadata = True, success = True\<rparr>] \<and>
   errors (st_results (loop_body demo_env demo_args ''flac'' demo_state)) =
     [''File not found after download: Title.flac'']"
proof -
  have f: "final_filename ''Title.webm'' ''mp3'' = ''Title.mp3''"
    "final_filename ''Title.webm'' ''flac'' = ''Title.flac''"
    by (simp_all add: final_filename_def rsplit_dot_head_def)
  have c: "format_configs ''mp3'' =
      Some \<lparr>cfg_format = ''bestaudio/best'', cfg_postprocessors = [], cfg_ext = ''mp3''\<rparr>"
    "format_configs ''flac'' =
      Some \<lparr>cfg_format = ''bestaudio/best'', cfg_postprocessors = [extract_audio ''flac''],
        cfg_ext = ''flac''\<rparr>"
    by (simp_all add: format_configs_def)
  have 1: "downloads (st_results (loop_body demo_env demo_args ''mp3'' demo_state)) =
     [\<lparr>format = ''mp3'', filename = ''Title.mp3'', size_mb = Round2_MiB 3145728,
       with_thumbnail = True, with_metadata = True, success = True\<rparr>]"
    using C2_file_check [OF c(1), of demo_env demo_args demo_state "[]" "''Title''" "[]"
        "[''Title.mp3'', ''Title.m4a'', ''Title.mp4'']" "''Title.webm''"
        "[''Title.mp3'', ''Title.m4a'', ''Title.mp4'']"]
    by (simp add: demo_env_def demo_state_def demo_args_def init_results_def f)
  have 2: "errors (st_results (loop_body demo_env demo_args ''flac'' demo_state)) =
     [''File not found after download: Title.flac'']"
    using C2_file_check [OF c(2), of demo_env demo_args demo_state "[]" "''Title''" "[]"
        "[''Title.mp3'', ''Title.m4a'', ''Title.mp4'']" "''Title.webm''"
        "[''Title.mp3'', ''Title.m4a'', ''Title.mp4'']"]
    by (simp add: demo_env_def demo_state_def demo_args_def init_results_def f)
  show ?thesis by (rule conjI [OF 1 2])
qed

text \<open>
  C3. If the processing of a requested format fails, because the library raises an
  exception in one of its four calls or because the expected output file is missing after
  they returned, exactly one error string is appended to \<open>errors\<close> and nothing else of
  the results changes (\<open>Error downloading <fmt>: <message>\<close> for an exception,
  \<open>File not found after download: <path>\<close> for a missing file); the dictionary of the
  format has been handed over once (no retry); and the loop goes on with every format
  that follows. The iteration is one reached after any formats \<open>pre\<close>, in any state.
\<close>

theorem C3_failure_is_local:
  assumes "format_configs fmt = Some cfg"
  shows "let opts = build_ydl_opts a fmt cfg;
             st1 = process_formats E a pre st;
             st2 = loop_body E a fmt st1
         in (\<forall>e w1. YoutubeDL E opts (world st1) = (Inl e, w1) \<longrightarrow>
               st_results st2 = (st_results st1)\<lparr>errors := errors (st_results st1) @
                 [''Error downloading '' @ fmt @ '': '' @ e]\<rparr>) \<and>
            (\<forall>w1 e w2. YoutubeDL E opts (world st1) = (Inr (), w1) \<longrightarrow>
               extract_info E opts (arg_url a) w1 = (Inl e, w2) \<longrightarrow>
               st_results st2 = (st_results st1)\<lparr>errors := errors (st_results st1) @
                 [''Error downloading '' @ fmt @ '': '' @ e]\<rparr>) \<and>
            (\<forall>w1 info w2 e w3. YoutubeDL E opts (world st1) = (Inr (), w1) \<longrightarrow>
               extract_info E opts (arg_url a) w1 = (Inr info, w2) \<longrightarrow>
               download E opts [arg_url a] w2 = (Inl e, w3) \<longrightarrow>
               st_results st2 = (st_results st1)\<lparr>errors := errors (st_results st1) @
                 [''Error downloading '' @ fmt @ '': '' @ e]\<rparr>) \<and>
            (\<forall>w1 info w2 w3 e w4. YoutubeDL E opts (world st1) = (Inr (), w1) \<longrightarrow>
               extract_info E opts (arg_url a) w1 = (Inr info, w2) \<longrightarrow>
               download E opts [arg_url a] w2 = (Inr (), w3) \<longrightarrow>
               prepare_filename E opts info w3 = (Inl e, w4) \<longrightarrow>
               st_results st2 = (st_results st1)\<lparr>errors := errors (st_results st1) @
                 [''Error downloading '' @ fmt @ '': '' @ e]\<rparr>) \<and>
            (\<forall>w1 info w2 w3 base_filename w4. YoutubeDL E opts (world st1) = (Inr (), w1) \<longrightarrow>
               extract_info E opts (arg_url a) w1 = (Inr info, w2) \<longrightarrow>
               download E opts [arg_url a] w2 = (Inr (), w3) \<longrightarrow>
               prepare_filename E opts info w3 = (Inr base_filename, w4) \<longrightarrow>
               \<not> path_exists E (final_filename base_filename fmt) w4 \<longrightarrow>
               st_results st2 = (st_results st1)\<lparr>errors := errors (st_results st1) @
                 [''File not found after download: '' @ final_filename base_filename fmt]\<rparr>) \<and>
            handed_over (calls st2) = handed_over (calls st1) @ [opts] \<and>
            process_formats E a (pre @ fmt # post) st = process_formats E a post st2"
proof -
  define opts where "opts = build_ydl_opts a fmt cfg"
  define st1 where "st1 = process_formats E a pre st"
  define st2 where "st2 = loop_body E a fmt st1"
  define err where "err = (\<lambda>e. ''Error downloading '' @ fmt @ '': '' @ e)"
  define missing where
    "missing = (\<lambda>b. ''File not found after download: '' @ final_filename b fmt)"
  note cfg = assms
  have c1: "\<forall>e w1. YoutubeDL E opts (world st1) = (Inl e, w1) \<longrightarrow>
               st_results st2 = (st_results st1)\<lparr>errors := errors (st_results st1) @ [err e]\<rparr>"
  proof (intro allI impI)
    fix e w1
    assume y: "YoutubeDL E opts (world st1) = (Inl e, w1)"
    show "st_results st2 = (st_results st1)\<lparr>errors := errors (st_results st1) @ [err e]\<rparr>"
      unfolding st2_def err_def
      using loop_body_new_raises [OF cfg y [unfolded opts_def]]
      by (simp add: append_error_simps)
  qed
  have c2: "\<forall>w1 e w2. YoutubeDL E opts (world st1) = (Inr (), w1) \<longrightarrow>
               extract_info E opts (arg_url a) w1 = (Inl e, w2) \<longrightarrow>
               st_results st2 = (st_results st1)\<lparr>errors := errors (st_results st1) @ [err e]\<rparr>"
  proof (intro allI impI)
    fix w1 e w2
    assume y: "YoutubeDL E opts (world st1) = (Inr (), w1)"
      and x: "extract_info E opts (arg_url a) w1 = (Inl e, w2)"
    show "st_results st2 = (st_results st1)\<lparr>errors := errors (st_results st1) @ [err e]\<rparr>"
      unfolding st2_def err_def
      using loop_body_extract_raises [OF cfg y [unfolded opts_def] x [unfolded opts_def]]
      by (simp add: append_error_simps)
  qed
  have c3: "\<forall>w1 info w2 e w3. YoutubeDL E opts (world st1) = (Inr (), w1) \<longrightarrow>
               extract_info E opts (arg_url a) w1 = (Inr info, w2) \<longrightarrow>
               download E opts [arg_url a] w2 = (Inl e, w3) \<longrightarrow>
               st_results st2 = (st_results st1)\<lparr>errors := errors (st_results st1) @ [err e]\<rparr>"
  proof (intro allI impI)
    fix w1 info w2 e w3
    assume y: "YoutubeDL E opts (world st1) = (Inr (), w1)"
      and x: "extract_info E opts (arg_url a) w1 = (Inr info, w2)"
      and d: "download E opts [arg_url a] w2 = (Inl e, w3)"
    show "st_results st2 = (st_results st1)\<lparr>errors := errors (st_results st1) @ [err e]\<rparr>"
      unfolding st2_def err_def
      using loop_body_download_raises
        [OF cfg y [unfolded opts_def] x [unfolded opts_def] d [unfolded opts_def]]
      by (simp add: append_error_simps)
  qed
  have c4: "\<forall>w1 info w2 w3 e w4. YoutubeDL E opts (world st1) = (Inr (), w1) \<longrightarrow>
               extract_info E opts (arg_url a) w1 = (Inr info, w2) \<longrightarrow>
               download E opts [arg_url a] w2 = (Inr (), w3) \<longrightarrow>
               prepare_filename E opts info w3 = (Inl e, w4) \<longrightarrow>
               st_results st2 = (st_results st1)\<lparr>errors := errors (st_results st1) @ [err e]\<rparr>"
  proof (intro allI impI)
    fix w1 info w2 w3 e w4
    assume y: "YoutubeDL E opts (world st1) = (Inr (), w1)"
      and x: "extract_info E opts (arg_url a) w1 = (Inr info, w2)"
      and d: "download E opts [arg_url a] w2 = (Inr (), w3)"
      and p: "prepare_filename E opts info w3 = (Inl e, w4)"
    show "st_results st2 = (st_results st1)\<lparr>errors := errors (st_results st1) @ [err e]\<rparr>"
      unfolding st2_def err_def
      using loop_body_prepare_raises
        [OF cfg y [unfolded opts_def] x [unfolded opts_def] d [unfolded opts_def]
          p [unfolded opts_def]]
      by (simp add: append_error_simps)
  qed
  have c5: "\<forall>w1 info w2 w3 base_filename w4. YoutubeDL E opts (world st1) = (Inr (), w1) \<longrightarrow>
               extract_info E opts (arg_url a) w1 = (Inr info, w2) \<longrightarrow>
               download E opts [arg_url a] w2 = (Inr (), w3) \<longrightarrow>
               prepare_filename E opts info w3 = (Inr base_filename, w4) \<longrightarrow>
               \<not> path_exists E (final_filename base_filename fmt) w4 \<longrightarrow>
               st_results st2 =
                 (st_results st1)\<lparr>errors := errors (st_results st1) @ [missing base_filename]\<rparr>"
  proof (intro allI impI)
    fix w1 info w2 w3 base_filename w4
    assume y: "YoutubeDL E opts (world st1) = (Inr (), w1)"
      and x: "extract_info E opts (arg_url a) w1 = (Inr info, w2)"
      and d: "download E opts [arg_url a] w2 = (Inr (), w3)"
      and p: "prepare_filename E opts info w3 = (Inr base_filename, w4)"
      and n: "\<not> path_exists E (final_filename base_filename fmt) w4"
    show "st_results st2 =
        (st_results st1)\<lparr>errors := errors (st_results st1) @ [missing base_filename]\<rparr>"
      unfolding st2_def missing_def
      using loop_body_returns
        [OF cfg y [unfolded opts_def] x [unfolded opts_def] d [unfolded opts_def]
          p [unfolded opts_def]] n
      by (simp add: append_error_simps)
  qed
  have c6: "handed_over (calls st2) = handed_over (calls st1) @ [opts]"
    unfolding st2_def opts_def
    using loop_body_handed_over [of E a fmt st1] cfg by simp
  have c7: "process_formats E a (pre @ fmt # post) st = process_formats E a post st2"
    unfolding st2_def st1_def by (simp add: process_formats_append)
  show ?thesis
    unfolding Let_def opts_def [symmetric] st1_def [symmetric] st2_def [symmetric]
    using conjI [OF c1 conjI [OF c2 conjI [OF c3 conjI [OF c4 conjI [OF c5 conjI [OF c6 c7]]]]]]
    unfolding err_def missing_def .
qed

text \<open>
  Witness of C3: after an \<open>avi\<close> request has left its error, an \<open>mp3\<close> request whose
  \<^verbatim>\<open>extract_info\<close> raises, and a \<open>flac\<close> request whose file is missing.
\<close>

theorem C3_witness:
  "st_results (loop_body demo_env (demo_args\<lparr>arg_url := ''bad''\<rparr>) ''mp3''
      (process_formats demo_env (demo_args\<lparr>arg_url := ''bad''\<rparr>) [''avi''] demo_state)) =
     \<lparr>url = ''https://youtu.be/x'', formats_requested = [''mp3'', ''avi''], downloads = [],
       errors = [''Unsupported format: avi'',
                 ''Error downloading mp3: ERROR: bad is not a valid URL'']\<rparr> \<and>
   st_results (loop_body demo_env demo_args ''flac''
      (process_formats demo_env demo_args [''avi''] demo_state)) =
     \<lparr>url = ''https://youtu.be/x'', formats_requested = [''mp3'', ''avi''], downloads = [],
       errors = [''Unsupported format: avi'', ''File not found after download: Title.flac'']\<rparr>"
proof -
  let ?bad = "demo_args\<lparr>arg_url := ''bad''\<rparr>"
  let ?mp3 = "\<lparr>cfg_format = ''bestaudio/best'', cfg_postprocessors = [], cfg_ext = ''mp3''\<rparr>"
  let ?flac = "\<lparr>cfg_format = ''bestaudio/best'', cfg_postprocessors = [extract_audio ''flac''],
        cfg_ext = ''flac''\<rparr>"
  have c: "format_configs ''mp3'' = Some ?mp3" "format_configs ''flac'' = Some ?flac"
    by (simp_all add: format_configs_def)
  have s: "\<And>a. st_results (process_formats demo_env a [''avi''] demo_state) =
      \<lparr>url = ''https://youtu.be/x'', formats_requested = [''mp3'', ''avi''], downloads = [],
        errors = [''Unsupported format: avi'']\<rparr>"
    "\<And>a. world (process_formats demo_env a [''avi''] demo_state) = []"
    by (simp_all add: demo_avi_state append_error_simps demo_state_def init_results_def
          requested_def demo_args_def)
  have f: "final_filename ''Title.webm'' ''flac'' = ''Title.flac''"
    by (simp add: final_filename_def rsplit_dot_head_def)
  have y1: "YoutubeDL demo_env (build_ydl_opts ?bad ''mp3'' ?mp3)
      (world (process_formats demo_env ?bad [''avi''] demo_state)) = (Inr (), [])"
    unfolding s by (simp add: demo_env_def)
  have x1: "extract_info demo_env (build_ydl_opts ?bad ''mp3'' ?mp3) (arg_url ?bad) [] =
      (Inl ''ERROR: bad is not a valid URL'', [])"
    by (simp add: demo_env_def)
  note t1 = C3_failure_is_local [OF c(1), where a = ?bad and E = demo_env
      and pre = "[''avi'']" and st = demo_state, unfolded Let_def]
  have 1: "st_results (loop_body demo_env ?bad ''mp3''
      (process_formats demo_env ?bad [''avi''] demo_state)) =
     \<lparr>url = ''https://youtu.be/x'', formats_requested = [''mp3'', ''avi''], downloads = [],
       errors = [''Unsupported format: avi'',
                 ''Error downloading mp3: ERROR: bad is not a valid URL'']\<rparr>"
    using t1 [THEN conjunct2, THEN conjunct1, rule_format, OF y1 x1]
    unfolding s by simp
  have y2: "YoutubeDL demo_env (build_ydl_opts demo_args ''flac'' ?flac)
      (world (process_formats demo_env demo_args [''avi''] demo_state)) = (Inr (), [])"
    unfolding s by (simp add: demo_env_def)
  have x2: "extract_info demo_env (build_ydl_opts demo_args ''flac'' ?flac) (arg_url demo_args) [] =
      (Inr ''Title'', [])"
    by (simp add: demo_env_def demo_args_def)
  have d2: "download demo_env (build_ydl_opts demo_args ''flac'' ?flac) [arg_url demo_args] [] =
      (Inr (), [''Title.mp3'', ''Title.m4a'', ''Title.mp4''])"
    by (simp add: demo_env_def)
  have p2: "prepare_filename demo_env (build_ydl_opts demo_args ''flac'' ?flac) ''Title''
      [''Title.mp3'', ''Title.m4a'', ''Title.mp4''] =
      (Inr ''Title.webm'', [''Title.mp3'', ''Title.m4a'', ''Title.mp4''])"
    by (simp add: demo_env_def)
  have n2: "\<not> path_exists demo_env (final_filename ''Title.webm'' ''flac'')
      [''Title.mp3'', ''Title.m4a'', ''Title.mp4'']"
    unfolding f by (simp add: demo_env_def)
  note t2 = C3_failure_is_local [OF c(2), where a = demo_args and E = demo_env
      and pre = "[''avi'']" and st = demo_state, unfolded Let_def]
  have 2: "st_results (loop_body demo_env demo_args ''flac''
      (process_formats demo_env demo_args [''avi''] demo_state)) =
     \<lparr>url = ''https://youtu.be/x'', formats_requested = [''mp3'', ''avi''], downloads = [],
       errors = [''Unsupported format: avi'', ''File not found after download: Title.flac'']\<rparr>"
    using t2 [THEN conjunct2, THEN conjunct2, THEN conjunct2, THEN conjunct2, THEN conjunct1,
        rule_format, OF y2 x2 d2 p2 n2]
    unfolding s f by simp
  show ?thesis by (rule conjI [OF 1 2])
qed

text \<open>
  C5. When \<^verbatim>\<open>os.makedirs\<close> does not raise, the function returns a results record with
  the URL as passed in and the requested format list as passed in (\<open>[mp3]\<close> when none is
  passed). Its success records are in the relative order of their formats in the
  requested list, and each holds, for one occurrence of its format in that list: the
  format, the path computed from the name the library gave in that iteration, where the
  file existed, the size of that file as read in that iteration, the two flags, and
  \<open>success\<close>. Its error strings are each one of the three messages for a requested
  format, and records and errors together are as many as the requested formats.
\<close>

theorem C5_results_record:
  assumes "makedirs E (output_dir a) w = (Inr u, w')"
  shows "\<exists>sf. download_youtube_media E a w = Inr sf \<and>
           url (st_results sf) = arg_url a \<and>
           formats_requested (st_results sf) =
             (case arg_formats a of None \<Rightarrow> [''mp3''] | Some fs \<Rightarrow> fs) \<and>
           length (downloads (st_results sf)) + length (errors (st_results sf)) =
             length (formats_requested (st_results sf)) \<and>
           subseq (map format (downloads (st_results sf))) (formats_requested (st_results sf)) \<and>
           (\<forall>d \<in> set (downloads (st_results sf)).
              \<exists>pre post. formats_requested (st_results sf) = pre @ format d # post \<and>
                (\<exists>cfg w1 info w2 w3 base_filename w4.
                   format_configs (format d) = Some cfg \<and>
                   YoutubeDL E (build_ydl_opts a (format d) cfg)
                     (world (process_formats E a pre
                        \<lparr>st_results = init_results a, world = w', calls = []\<rparr>)) =
                     (Inr (), w1) \<and>
                   extract_info E (build_ydl_opts a (format d) cfg) (arg_url a) w1 =
                     (Inr info, w2) \<and>
                   download E (build_ydl_opts a (format d) cfg) [arg_url a] w2 = (Inr (), w3) \<and>
                   prepare_filename E (build_ydl_opts a (format d) cfg) info w3 =
                     (Inr base_filename, w4) \<and>
                   filename d = final_filename base_filename (format d) \<and>
                   path_exists E (filename d) w4 \<and>
                   size_mb d = Round2_MiB (path_getsize E (filename d) w4) \<and>
                   with_thumbnail d =
                     (format d \<in> {''mp3'', ''flac'', ''m4a''} \<and> include_thumbnail a) \<and>
                   with_metadata d = include_metadata a \<and>
                   success d)) \<and>
           (\<forall>e \<in> set (errors (st_results sf)).
              \<exists>fmt \<in> set (formats_requested (st_results sf)).
                e = ''Unsupported format: '' @ fmt \<or>
                (\<exists>x. e = ''Error downloading '' @ fmt @ '': '' @ x) \<or>
                (\<exists>b. e = ''File not found after download: '' @ final_filename b fmt))"
proof -
  define s0 where "s0 = \<lparr>st_results = init_results a, world = w', calls = []\<rparr>"
  define sf where "sf = process_formats E a (requested a) s0"
  define dflt where "dflt = (case arg_formats a of None \<Rightarrow> [''mp3''] | Some fs \<Rightarrow> fs)"
  have r: "download_youtube_media E a w = Inr sf"
    unfolding sf_def s0_def using assms by (rule download_youtube_media_returns)
  have f1: "url (st_results sf) = arg_url a"
    unfolding sf_def s0_def by (simp add: process_formats_frame init_results_def)
  have rq: "requested a = dflt"
    unfolding dflt_def by (simp add: requested_def)
  have f2: "formats_requested (st_results sf) = dflt"
    unfolding sf_def s0_def rq [symmetric]
    by (simp add: process_formats_frame init_results_def)
  have n: "length (downloads (st_results sf)) + length (errors (st_results sf)) = length dflt"
    unfolding sf_def s0_def rq [symmetric]
    by (simp add: process_formats_count init_results_def)
  from process_formats_outcome [of E a "requested a" s0] obtain ds es where
    o: "downloads (st_results sf) = downloads (st_results s0) @ ds"
      "errors (st_results sf) = errors (st_results s0) @ es"
      "subseq (map format ds) (requested a)"
      "\<forall>d \<in> set ds. \<exists>p q. requested a = p @ format d # q \<and>
         produced_by E a (process_formats E a p s0) d"
      "\<forall>e \<in> set es. \<exists>f \<in> set (requested a). error_of f e"
    unfolding sf_def by blast
  have d: "downloads (st_results sf) = ds" "errors (st_results sf) = es"
    using o(1,2) unfolding s0_def by (simp_all add: init_results_def)
  have s: "subseq (map format (downloads (st_results sf))) dflt"
    unfolding d rq [symmetric] by (rule o(3))
  have g: "\<forall>d \<in> set (downloads (st_results sf)). \<exists>pre post. dflt = pre @ format d # post \<and>
         produced_by E a (process_formats E a pre s0) d"
    unfolding d rq [symmetric] by (rule o(4))
  have h: "\<forall>e \<in> set (errors (st_results sf)). \<exists>fmt \<in> set dflt. error_of fmt e"
    unfolding d rq [symmetric] by (rule o(5))
  have "download_youtube_media E a w = Inr sf \<and>
        url (st_results sf) = arg_url a \<and>
        formats_requested (st_results sf) = dflt \<and>
        length (downloads (st_results sf)) + length (errors (st_results sf)) = length dflt \<and>
        subseq (map format (downloads (st_results sf))) dflt \<and>
        (\<forall>d \<in> set (downloads (st_results sf)). \<exists>pre post. dflt = pre @ format d # post \<and>
           produced_by E a (process_formats E a pre s0) d) \<and>
        (\<forall>e \<in> set (errors (st_results sf)). \<exists>fmt \<in> set dflt. error_of fmt e)"
    by (rule conjI [OF r conjI [OF f1 conjI [OF f2 conjI [OF n conjI [OF s conjI [OF g h]]]]]])
  then have "download_youtube_media E a w = Inr sf \<and>
        url (st_results sf) = arg_url a \<and>
        formats_requested (st_results sf) = dflt \<and>
        length (downloads (st_results sf)) + length (errors (st_results sf)) =
          length (formats_requested (st_results sf)) \<and>
        subseq (map format (downloads (st_results sf))) (formats_requested (st_results sf)) \<and>
        (\<forall>d \<in> set (downloads (st_results sf)).
           \<exists>pre post. formats_requested (st_results sf) = pre @ format d # post \<and>
           produced_by E a (process_formats E a pre s0) d) \<and>
        (\<forall>e \<in> set (errors (st_results sf)).
           \<exists>fmt \<in> set (formats_requested (st_results sf)). error_of fmt e)"
    unfolding f2 .
  then show ?thesis
    unfolding produced_by_def error_of_def dflt_def s0_def
    by (rule exI [where x = sf])
qed

text \<open>Witness of C5: the concrete run; every file of the concrete world has 3145728 bytes.\<close>

theorem C5_witness:
  "\<exists>sf. download_youtube_media demo_env demo_args [] = Inr sf \<and>
     url (st_results sf) = ''https://youtu.be/x'' \<and>
     formats_requested (st_results sf) = [''mp3'', ''avi''] \<and>
     length (downloads (st_results sf)) + length (errors (st_results sf)) = 2 \<and>
     (\<forall>d \<in> set (downloads (st_results sf)). size_mb d = Round2_MiB 3145728)"
    (is "\<exists>sf. ?P sf")
proof -
  have m: "makedirs demo_env (output_dir demo_args) [] = (Inr (), [])"
    by (simp add: demo_env_def demo_args_def)
  have u: "arg_url demo_args = ''https://youtu.be/x''"
    "(case arg_formats demo_args of None \<Rightarrow> [''mp3''] | Some fs \<Rightarrow> fs) = [''mp3'', ''avi'']"
    by (simp_all add: demo_args_def)
  from C5_results_record [OF m] obtain sf where
    a: "download_youtube_media demo_env demo_args [] = Inr sf" and
    b: "url (st_results sf) = arg_url demo_args" and
    c: "formats_requested (st_results sf) =
         (case arg_formats demo_args of None \<Rightarrow> [''mp3''] | Some fs \<Rightarrow> fs)" and
    n: "length (downloads (st_results sf)) + length (errors (st_results sf)) =
         length (formats_requested (st_results sf))" and
    g: "\<forall>d \<in> set (downloads (st_results sf)).
          \<exists>pre post. formats_requested (st_results sf) = pre @ format d # post \<and>
            (\<exists>cfg w1 info w2 w3 base_filename w4.
               format_configs (format d) = Some cfg \<and>
               YoutubeDL demo_env (build_ydl_opts demo_args (format d) cfg)
                 (world (process_formats demo_env demo_args pre
                    \<lparr>st_results = init_results demo_args, world = [], calls = []\<rparr>)) =
                 (Inr (), w1) \<and>
               extract_info demo_env (build_ydl_opts demo_args (format d) cfg)
                 (arg_url demo_args) w1 = (Inr info, w2) \<and>
               download demo_env (build_ydl_opts demo_args (format d) cfg)
                 [arg_url demo_args] w2 = (Inr (), w3) \<and>
               prepare_filename demo_env (build_ydl_opts demo_args (format d) cfg) info w3 =
                 (Inr base_filename, w4) \<and>
               filename d = final_filename base_filename (format d) \<and>
               path_exists demo_env (filename d) w4 \<and>
               size_mb d = Round2_MiB (path_getsize demo_env (filename d) w4) \<and>
               with_thumbnail d =
                 (format d \<in> {''mp3'', ''flac'', ''m4a''} \<and> include_thumbnail demo_args) \<and>
               with_metadata d = include_metadata demo_args \<and>
               success d)"
    by (elim exE conjE) (rule that)
  have g': "\<forall>d \<in> set (downloads (st_results sf)). size_mb d = Round2_MiB 3145728"
  proof
    fix d
    assume "d \<in> set (downloads (st_results sf))"
    from g [rule_format, OF this] obtain w4 where
      "size_mb d = Round2_MiB (path_getsize demo_env (filename d) w4)"
      by (elim exE conjE) (rule that)
    then show "size_mb d = Round2_MiB 3145728"
      by (simp add: demo_env_def)
  qed
  have n': "length (downloads (st_results sf)) + length (errors (st_results sf)) = 2"
    using n unfolding c u by simp
  have p: "?P sf"
    by (rule conjI [OF a conjI [OF b [unfolded u] conjI [OF c [unfolded u] conjI [OF n' g']]]])
  show ?thesis by (rule exI [of ?P sf, OF p])
qed

text \<open>
  C4. In every success record the two flags should be true exactly when the matching
  embedding step was configured for the library. The code does not keep this: the tests
  of lines 137 and 143 are nested in the test of line 129, so no step is ever added for
  \<open>m4a\<close>, \<open>mp4\<close> or \<open>webm\<close>, while lines 182-183 set \<open>with_thumbnail\<close> for \<open>m4a\<close>
  and \<open>with_metadata\<close> for every format. The run below requests \<open>m4a\<close> with both
  arguments set: the record says that thumbnail and metadata are embedded, and the
  dictionary handed to the library has neither \<open>writethumbnail\<close> nor any post-processor.
\<close>

theorem C4_flags_without_steps:
  "\<exists>st. download_youtube_media demo_env (demo_args\<lparr>arg_formats := Some [''m4a'']\<rparr>) [] = Inr st \<and>
     map with_thumbnail (downloads (st_results st)) = [True] \<and>
     map with_metadata (downloads (st_results st)) = [True] \<and>
     map writethumbnail (handed_over (calls st)) = [None] \<and>
     map postprocessors (handed_over (calls st)) = [None]"
    (is "\<exists>st. ?P st")
proof -
  let ?a = "demo_args\<lparr>arg_formats := Some [''m4a'']\<rparr>"
  let ?st0 = "\<lparr>st_results = init_results ?a, world = ([]::string list), calls = []\<rparr>"
  have m: "makedirs demo_env (output_dir ?a) [] = (Inr (), [])"
    by (simp add: demo_env_def demo_args_def)
  have r: "requested ?a = [''m4a'']"
    by (simp add: requested_def)
  have d: "download_youtube_media demo_env ?a [] = Inr (loop_body demo_env ?a ''m4a'' ?st0)"
    using download_youtube_media_returns [OF m] unfolding r by simp
  have p: "?P (loop_body demo_env ?a ''m4a'' ?st0)"
    unfolding d demo_m4a_loop_body by simp
  show ?thesis by (rule exI [of ?P, OF p])
qed

text \<open>
  C6. For a supported format the option dictionary follows a fixed table. \<open>mp3\<close>,
  \<open>flac\<close>, \<open>wav\<close> and \<open>ogg\<close> select \<open>bestaudio/best\<close> and have one audio-extraction
  step, with the requested quality for \<open>mp3\<close> only; \<open>mp4\<close> and \<open>webm\<close> select the best
  stream of their container and have no post-processing step; \<open>m4a\<close> selects the best
  m4a audio. The thumbnail step is present exactly when \<open>include_thumbnail\<close> is set and
  the format is \<open>mp3\<close> or \<open>flac\<close>, hence only for a format of the thumbnail-eligible
  subset \<open>{mp3, flac, m4a}\<close>; the metadata step is present exactly when
  \<open>include_metadata\<close> is set and the format is one of \<open>mp3\<close>, \<open>flac\<close>, \<open>wav\<close>, \<open>ogg\<close>.
  The list of steps is given in its order; the key \<open>postprocessors\<close> is absent when the
  list is empty.
\<close>

theorem C6_option_table:
  assumes "format_configs fmt = Some cfg"
  shows "opt_format (build_ydl_opts a fmt cfg) =
           (if fmt \<in> {''mp3'', ''flac'', ''wav'', ''ogg''} then ''bestaudio/best''
            else if fmt = ''m4a'' then ''bestaudio[ext=m4a]/bestaudio''
            else ''best[ext='' @ fmt @ '']/best'') \<and>
         postprocessors (build_ydl_opts a fmt cfg) =
           (let steps =
              (if fmt = ''mp3''
               then [\<lparr>key = ''FFmpegExtractAudio'', preferredcodec = Some ''mp3'',
                      preferredquality = Some (quality a)\<rparr>]
               else if fmt = ''flac''
               then [\<lparr>key = ''FFmpegExtractAudio'', preferredcodec = Some ''flac'',
                      preferredquality = None\<rparr>]
               else if fmt = ''wav''
               then [\<lparr>key = ''FFmpegExtractAudio'', preferredcodec = Some ''wav'',
                      preferredquality = None\<rparr>]
               else if fmt = ''ogg''
               then [\<lparr>key = ''FFmpegExtractAudio'', preferredcodec = Some ''vorbis'',
                      preferredquality = None\<rparr>]
               else []) @
              (if include_thumbnail a \<and> fmt \<in> {''mp3'', ''flac''}
               then [\<lparr>key = ''EmbedThumbnail'', preferredcodec = None, preferredquality = None\<rparr>]
               else []) @
              (if include_metadata a \<and> fmt \<in> {''mp3'', ''flac'', ''wav'', ''ogg''}
               then [\<lparr>key = ''FFmpegMetadata'', preferredcodec = None, preferredquality = None\<rparr>]
               else [])
            in if steps = [] then None else Some steps) \<and>
         writethumbnail (build_ydl_opts a fmt cfg) =
           (if include_thumbnail a \<and> fmt \<in> {''mp3'', ''flac''} then Some True else None) \<and>
         (fmt \<in> {''mp4'', ''webm'', ''m4a''} \<longrightarrow> postprocessors (build_ydl_opts a fmt cfg) = None)"
  using assms
proof (cases rule: format_configs_cases)
  case 1
  then show ?thesis
    by (simp add: build_ydl_opts_def Let_def embed_thumbnail_def ffmpeg_metadata_def)
next
  case 2
  then show ?thesis
    by (simp add: build_ydl_opts_def Let_def embed_thumbnail_def ffmpeg_metadata_def)
next
  case 3
  then show ?thesis
    by (simp add: build_ydl_opts_def Let_def embed_thumbnail_def ffmpeg_metadata_def)
next
  case 4
  then show ?thesis
    by (simp add: build_ydl_opts_def Let_def embed_thumbnail_def ffmpeg_metadata_def)
next
  case 5
  then show ?thesis
    by (simp add: build_ydl_opts_def Let_def embed_thumbnail_def ffmpeg_metadata_def
          extract_audio_def)
next
  case 6
  then show ?thesis
    by (simp add: build_ydl_opts_def Let_def embed_thumbnail_def ffmpeg_metadata_def
          extract_audio_def)
next
  case 7
  then show ?thesis
    by (simp add: build_ydl_opts_def Let_def embed_thumbnail_def ffmpeg_metadata_def
          extract_audio_def)
qed

text \<open>Witness of C6: the steps of \<open>mp3\<close> with both arguments set and quality 192.\<close>

theorem C6_witness:
  "postprocessors (build_ydl_opts demo_args ''mp3''
      \<lparr>cfg_format = ''bestaudio/best'', cfg_postprocessors = [], cfg_ext = ''mp3''\<rparr>) =
     Some [\<lparr>key = ''FFmpegExtractAudio'', preferredcodec = Some ''mp3'',
             preferredquality = Some ''192''\<rparr>,
           \<lparr>key = ''EmbedThumbnail'', preferredcodec = None, preferredquality = None\<rparr>,
           \<lparr>key = ''FFmpegMetadata'', preferredcodec = None, preferredquality = None\<rparr>]"
proof -
  have c: "format_configs ''mp3'' =
      Some \<lparr>cfg_format = ''bestaudio/best'', cfg_postprocessors = [], cfg_ext = ''mp3''\<rparr>"
    by (simp add: format_configs_def)
  from C6_option_table [OF c, of demo_args] show ?thesis
    by (simp add: demo_args_def Let_def)
qed

text \<open>
  C10. The argument \<open>quality\<close> reaches the dictionary of \<open>mp3\<close> only. For two
  invocations whose arguments differ in \<open>quality\<close> alone, in any two worlds, the
  dictionaries handed to the library for the requested formats other than \<open>mp3\<close> are the
  same; and the dictionary built for a format other than \<open>mp3\<close> does not depend on
  \<open>quality\<close>.
\<close>

theorem C10_quality_only_mp3:
  assumes "download_youtube_media E a w = Inr st"
    and "download_youtube_media E' (a\<lparr>quality := q\<rparr>) w' = Inr st'"
  shows "filter (\<lambda>(fmt, opts). fmt \<noteq> ''mp3'')
           (zip (filter (\<lambda>fmt. format_configs fmt \<noteq> None) (requested a))
                (handed_over (calls st))) =
         filter (\<lambda>(fmt, opts). fmt \<noteq> ''mp3'')
           (zip (filter (\<lambda>fmt. format_configs fmt \<noteq> None) (requested a))
                (handed_over (calls st'))) \<and>
         (\<forall>fmt cfg. fmt \<noteq> ''mp3'' \<longrightarrow>
            build_ydl_opts (a\<lparr>quality := q\<rparr>) fmt cfg = build_ydl_opts a fmt cfg)"
proof -
  define Q where "Q = (\<lambda>fmt::string. fmt \<noteq> ''mp3'')"
  have b: "\<And>fmt cfg. Q fmt \<Longrightarrow>
      build_ydl_opts (a\<lparr>quality := q\<rparr>) fmt cfg = build_ydl_opts a fmt cfg"
    unfolding Q_def by (rule build_ydl_opts_quality)
  have 1: "filter (\<lambda>(fmt, opts). Q fmt)
           (zip (filter (\<lambda>fmt. format_configs fmt \<noteq> None) (requested a))
                (handed_over (calls st))) =
         map (\<lambda>fmt. (fmt, the (map_option (build_ydl_opts a fmt) (format_configs fmt))))
           (filter Q (filter (\<lambda>fmt. format_configs fmt \<noteq> None) (requested a)))"
    using assms(1) by (rule handed_over_pairs)
  have 2: "filter (\<lambda>(fmt, opts). Q fmt)
           (zip (filter (\<lambda>fmt. format_configs fmt \<noteq> None) (requested a))
                (handed_over (calls st'))) =
         map (\<lambda>fmt. (fmt, the (map_option (build_ydl_opts (a\<lparr>quality := q\<rparr>) fmt)
                                  (format_configs fmt))))
           (filter Q (filter (\<lambda>fmt. format_configs fmt \<noteq> None) (requested a)))"
    using handed_over_pairs [OF assms(2), of Q] by (simp only: requested_quality)
  have 3: "map (\<lambda>fmt. (fmt, the (map_option (build_ydl_opts (a\<lparr>quality := q\<rparr>) fmt)
                                  (format_configs fmt))))
           (filter Q (filter (\<lambda>fmt. format_configs fmt \<noteq> None) (requested a))) =
         map (\<lambda>fmt. (fmt, the (map_option (build_ydl_opts a fmt) (format_configs fmt))))
           (filter Q (filter (\<lambda>fmt. format_configs fmt \<noteq> None) (requested a)))"
    by (rule map_cong) (auto simp: b option.map_sel)
  have e: "filter (\<lambda>(fmt, opts). Q fmt)
           (zip (filter (\<lambda>fmt. format_configs fmt \<noteq> None) (requested a))
                (handed_over (calls st))) =
         filter (\<lambda>(fmt, opts). Q fmt)
           (zip (filter (\<lambda>fmt. format_configs fmt \<noteq> None) (requested a))
                (handed_over (calls st')))"
    unfolding 1 2 3 by (rule refl)
  have p: "\<forall>fmt cfg. Q fmt \<longrightarrow>
            build_ydl_opts (a\<lparr>quality := q\<rparr>) fmt cfg = build_ydl_opts a fmt cfg"
    using b by (intro allI impI)
  show ?thesis
    using e p unfolding Q_def by (rule conjI)
qed

text \<open>
  Witness of C10: \<open>flac\<close> and \<open>mp3\<close> requested with quality 192 and with quality 320;
  the dictionary of \<open>flac\<close> is the same in both runs.
\<close>

theorem C10_witness:
  "filter (\<lambda>(fmt, opts). fmt \<noteq> ''mp3'')
     (zip [''flac'', ''mp3'']
        (handed_over (calls (process_formats demo_env
           (demo_args\<lparr>arg_formats := Some [''flac'', ''mp3'']\<rparr>) [''flac'', ''mp3'']
           \<lparr>st_results = init_results (demo_args\<lparr>arg_formats := Some [''flac'', ''mp3'']\<rparr>),
             world = [], calls = []\<rparr>)))) =
   filter (\<lambda>(fmt, opts). fmt \<noteq> ''mp3'')
     (zip [''flac'', ''mp3'']
        (handed_over (calls (process_formats demo_env
           (demo_args\<lparr>arg_formats := Some [''flac'', ''mp3''], quality := ''320''\<rparr>)
           [''flac'', ''mp3'']
           \<lparr>st_results =
               init_results (demo_args\<lparr>arg_formats := Some [''flac'', ''mp3''], quality := ''320''\<rparr>),
             world = [], calls = []\<rparr>))))"
proof -
  let ?a = "demo_args\<lparr>arg_formats := Some [''flac'', ''mp3'']\<rparr>"
  have m1: "makedirs demo_env (output_dir ?a) [] = (Inr (), [])"
    by (simp add: demo_env_def demo_args_def)
  have m2: "makedirs demo_env (output_dir (?a\<lparr>quality := ''320''\<rparr>)) [] = (Inr (), [])"
    by (simp add: demo_env_def demo_args_def)
  have r: "requested ?a = [''flac'', ''mp3'']"
    "requested (?a\<lparr>quality := ''320''\<rparr>) = [''flac'', ''mp3'']"
    by (simp_all add: requested_def)
  have f: "filter (\<lambda>fmt. format_configs fmt \<noteq> None) [''flac'', ''mp3''] = [''flac'', ''mp3'']"
    by (simp add: format_configs_def)
  note r1 = download_youtube_media_returns [OF m1]
  note r2 = download_youtube_media_returns [OF m2]
  from C10_quality_only_mp3 [OF r1 r2] show ?thesis
    unfolding r f by (rule conjunct1)
qed

end
